theory Spec2Isabelle
  imports Complex_Main "HOL-Library.Sublist" "HOL-Library.Product_Lexorder" "HOL-Library.Log_Nat"
begin

section \<open>Text\<close>

text \<open>
  A Python \<open>str\<close> is a sequence of code points. The model is \<open>string\<close>, one \<open>char\<close>
  per code point, which covers the code points below 256 (ASCII and Latin-1). Character
  classes and case mapping follow Python on this range; the upper-case forms of U+00B5
  and U+00FF lie outside it, and \<open>upper\<close> leaves these two unchanged.
\<close>

definition ascii_lowercase :: string where
  "ascii_lowercase = ''abcdefghijklmnopqrstuvwxyz''"

definition ascii_uppercase :: string where
  "ascii_uppercase = ''ABCDEFGHIJKLMNOPQRSTUVWXYZ''"

definition ascii_digits :: string where
  "ascii_digits = ''0123456789''"

definition latin1_uppercase :: string where
  "latin1_uppercase =
     [CHR 0xC0, CHR 0xC1, CHR 0xC2, CHR 0xC3, CHR 0xC4, CHR 0xC5, CHR 0xC6, CHR 0xC7,
      CHR 0xC8, CHR 0xC9, CHR 0xCA, CHR 0xCB, CHR 0xCC, CHR 0xCD, CHR 0xCE, CHR 0xCF,
      CHR 0xD0, CHR 0xD1, CHR 0xD2, CHR 0xD3, CHR 0xD4, CHR 0xD5, CHR 0xD6, CHR 0xD8,
      CHR 0xD9, CHR 0xDA, CHR 0xDB, CHR 0xDC, CHR 0xDD, CHR 0xDE]"

definition latin1_lowercase :: string where
  "latin1_lowercase =
     [CHR 0xE0, CHR 0xE1, CHR 0xE2, CHR 0xE3, CHR 0xE4, CHR 0xE5, CHR 0xE6, CHR 0xE7,
      CHR 0xE8, CHR 0xE9, CHR 0xEA, CHR 0xEB, CHR 0xEC, CHR 0xED, CHR 0xEE, CHR 0xEF,
      CHR 0xF0, CHR 0xF1, CHR 0xF2, CHR 0xF3, CHR 0xF4, CHR 0xF5, CHR 0xF6, CHR 0xF8,
      CHR 0xF9, CHR 0xFA, CHR 0xFB, CHR 0xFC, CHR 0xFD, CHR 0xFE]"

text \<open>\<open>str.isspace\<close>, also the class \<open>\s\<close> of \<open>re\<close> on \<open>str\<close> patterns.\<close>

definition isspace :: "char \<Rightarrow> bool" where
  "isspace c \<longleftrightarrow> c \<in> set [CHR 0x09, CHR 0x0A, CHR 0x0B, CHR 0x0C, CHR 0x0D, CHR 0x1C,
     CHR 0x1D, CHR 0x1E, CHR 0x1F, CHR 0x20, CHR 0x85, CHR 0xA0]"

text \<open>\<open>str.isdigit\<close>: the decimal digits and the superscript digits U+00B2, U+00B3, U+00B9.\<close>

definition isdigit :: "char \<Rightarrow> bool" where
  "isdigit c \<longleftrightarrow> c \<in> set (ascii_digits @ [CHR 0xB2, CHR 0xB3, CHR 0xB9])"

definition lower_char :: "char \<Rightarrow> char" where
  "lower_char c =
     (case map_of (zip (ascii_uppercase @ latin1_uppercase)
                       (ascii_lowercase @ latin1_lowercase)) c of
        Some d \<Rightarrow> d
      | None \<Rightarrow> c)"

definition upper_char :: "char \<Rightarrow> string" where
  "upper_char c =
     (if c = CHR 0xDF then ''SS''
      else case map_of (zip (ascii_lowercase @ latin1_lowercase)
                            (ascii_uppercase @ latin1_uppercase)) c of
             Some d \<Rightarrow> [d]
           | None \<Rightarrow> [c])"

definition lower :: "string \<Rightarrow> string" where
  "lower s = map lower_char s"

definition upper :: "string \<Rightarrow> string" where
  "upper s = concat (map upper_char s)"

text \<open>\<open>s.lstrip(chars)\<close>, \<open>s.rstrip(chars)\<close>, \<open>s.strip(chars)\<close> and the argument-free \<open>s.strip()\<close>.\<close>

definition lstrip_chars :: "string \<Rightarrow> string \<Rightarrow> string" where
  "lstrip_chars chars s = dropWhile (\<lambda>c. c \<in> set chars) s"

definition rstrip_chars :: "string \<Rightarrow> string \<Rightarrow> string" where
  "rstrip_chars chars s = rev (dropWhile (\<lambda>c. c \<in> set chars) (rev s))"

definition strip_chars :: "string \<Rightarrow> string \<Rightarrow> string" where
  "strip_chars chars s = rstrip_chars chars (lstrip_chars chars s)"

definition strip :: "string \<Rightarrow> string" where
  "strip s = rev (dropWhile isspace (rev (dropWhile isspace s)))"

definition startswith :: "string \<Rightarrow> string \<Rightarrow> bool" where
  "startswith s p \<longleftrightarrow> take (length p) s = p"

definition endswith :: "string \<Rightarrow> string \<Rightarrow> bool" where
  "endswith s p \<longleftrightarrow> length p \<le> length s \<and> drop (length s - length p) s = p"

text \<open>\<open>re.sub(cls + '+', r, s)\<close> for a character class: every maximal run of characters of
  the class is replaced by \<open>r\<close>.\<close>

function sub_runs :: "(char \<Rightarrow> bool) \<Rightarrow> string \<Rightarrow> string \<Rightarrow> string" where
  "sub_runs P r [] = []"
| "sub_runs P r (c # cs) =
     (if P c then r @ sub_runs P r (dropWhile P cs) else c # sub_runs P r cs)"
  by pat_completeness auto
termination
  by (relation "measure (\<lambda>(P, r, s). length s)")
     (auto simp: length_dropWhile_le less_Suc_eq_le)

text \<open>Truthiness of an optional string argument: \<open>None\<close> and \<open>""\<close> are both false.\<close>

fun truthy :: "string option \<Rightarrow> bool" where
  "truthy None = False"
| "truthy (Some s) = (s \<noteq> [])"

section \<open>Slug derivation\<close>

text \<open>
  \<^verbatim>\<open>
  slug = name.lower().strip()
  slug = re.sub(r'[^a-z0-9\s-]', '', slug)
  slug = re.sub(r'[\s_]+', '-', slug)
  slug = re.sub(r'-+', '-', slug)
  return slug.strip('-')
  \<close>
\<close>

definition slug_keep :: "char \<Rightarrow> bool" where
  "slug_keep c \<longleftrightarrow> c \<in> set ascii_lowercase \<or> c \<in> set ascii_digits \<or> isspace c \<or> c = CHR ''-''"

definition name_to_slug :: "string \<Rightarrow> string" where
  "name_to_slug name =
     (let slug = strip (lower name);
          slug = filter slug_keep slug;
          slug = sub_runs (\<lambda>c. isspace c \<or> c = CHR ''_'') ''-'' slug;
          slug = sub_runs (\<lambda>c. c = CHR ''-'') ''-'' slug
      in strip_chars ''-'' slug)"

section \<open>Symbol variations\<close>

definition expansions :: "(string \<times> string list) list" where
  "expansions =
     [(''RNDR'', [''RENDER'']),
      (''GRT'', [''GRAPH'']),
      (''FET'', [''FETCH'', ''ASI'']),
      (''AGIX'', [''ASI'']),
      (''OCEAN'', [''ASI'']),
      (''LUNA'', [''LUNC'', ''LUNA2'']),
      (''UST'', [''USTC'']),
      (''MATIC'', [''POL''])]"

definition suffixes :: "string list" where
  "suffixes = [''TOKEN'', ''COIN'', ''PROTOCOL'', ''NETWORK'', ''FINANCE'', ''SWAP'', ''DAO'']"

definition generate_symbol_variations :: "string \<Rightarrow> string list" where
  "generate_symbol_variations symbol0 =
     (let symbol = strip (upper symbol0);
          v_a = (case map_of expansions symbol of Some targets \<Rightarrow> targets | None \<Rightarrow> []);
          v_b = concat (map (\<lambda>suffix.
                  if endswith symbol suffix \<and> length symbol > length suffix
                  then [take (length symbol - length suffix) symbol] else []) suffixes);
          v_c = (if length symbol \<le> 4
                 then map (\<lambda>suffix. symbol @ suffix) [''TOKEN'', ''COIN''] else []);
          v_d = (if symbol \<noteq> [] \<and> isdigit (last symbol)
                 then [rstrip_chars ''0123456789'' symbol] else []);
          v_e = (if length symbol \<ge> 3 \<and> endswith symbol ''R''
                 then [butlast symbol @ ''ER''] else []);
          v_f = (if length symbol \<ge> 3 \<and> endswith symbol ''N''
                 then [symbol @ ''ET''] else [])
      in v_a @ v_b @ v_c @ v_d @ v_e @ v_f)"


section \<open>URL normalisation\<close>

definition remove_prefix :: "string \<Rightarrow> string \<Rightarrow> string" where
  "remove_prefix url p = (if startswith url p then drop (length p) url else url)"

definition normalize_url :: "string \<Rightarrow> string" where
  "normalize_url url0 =
     (let url = strip (lower url0);
          url = rstrip_chars ''/'' url
      in foldl remove_prefix url [''https://'', ''http://'', ''www.''])"

definition extract_domain :: "string \<Rightarrow> string" where
  "extract_domain url0 =
     (let url = normalize_url url0;
          domain = takeWhile (\<lambda>c. c \<noteq> CHR ''/'') url;
          domain = takeWhile (\<lambda>c. c \<noteq> CHR '':'') domain
      in domain)"

section \<open>Printing numbers\<close>

definition digit_char :: "nat \<Rightarrow> char" where
  "digit_char n = ascii_digits ! (n mod 10)"

fun str_nat :: "nat \<Rightarrow> string" where
  "str_nat n = (if n < 10 then [digit_char n] else str_nat (n div 10) @ [digit_char n])"

declare str_nat.simps [simp del]

definition str_int :: "int \<Rightarrow> string" where
  "str_int i = (if i < 0 then ''-'' @ str_nat (nat (- i)) else str_nat (nat i))"

fun join :: "string \<Rightarrow> string list \<Rightarrow> string" where
  "join sep [] = []"
| "join sep [x] = x"
| "join sep (x # y # ys) = x @ sep @ join sep (y # ys)"

section \<open>Catalog client\<close>

text \<open>
  The remote catalog answers with JSON. Its entries are typed here as the catalog publishes
  them: an entry always has an id, a text field that is missing reads as the empty
  string (\<open>item.get("name", "")\<close>), and \<open>rank\<close> may be missing or null. A JSON object is a
  list of key-value pairs with distinct keys.
\<close>

text \<open>A key of a JSON object: missing, \<open>null\<close>, or given.\<close>

datatype 'a field = Missing | Null | Given 'a

record entry =
  entry_id :: int
  entry_name :: string
  entry_symbol :: string
  entry_slug :: string
  entry_rank :: "int field"

record info =
  info_id :: int
  info_name :: string
  info_symbol :: string
  info_slug :: string
  website :: "string list"

text \<open>A value of the metadata mapping: one entry, or a list of entries.\<close>

datatype info_value = Single info | Several "info list"

record status =
  error_code :: "int field"
  error_message :: "string field"

text \<open>An HTTP response whose body is the parsed envelope; \<open>'d\<close> is the type of \<open>data\<close>.\<close>

record 'd response =
  status_code :: int
  envelope_status :: "status option"
  envelope_data :: "'d option"

datatype error =
    ValueError string
  | CoinMarketCapAPIError int "string option" "int option"
  | TransportError string

text \<open>\<open>str(e)\<close> of an exception, as the log lines print it.\<close>

fun str_error :: "error \<Rightarrow> string" where
  "str_error (ValueError msg) = msg"
| "str_error (CoinMarketCapAPIError sc message ec) =
     ''CoinMarketCap API error ('' @ str_int sc @ ''): '' @
     (case message of None \<Rightarrow> ''None'' | Some m \<Rightarrow> m)"
| "str_error (TransportError msg) = msg"

text \<open>\<open>response.is_success\<close> of the HTTP library: a status code from 200 to 299.\<close>

definition is_success :: "'d response \<Rightarrow> bool" where
  "is_success r \<longleftrightarrow> 200 \<le> status_code r \<and> status_code r \<le> 299"

text \<open>\<open>status.get("error_code", 0)\<close> and \<open>status.get("error_message", "Unknown error")\<close>,
  with \<open>status = data.get("status", {})\<close>.\<close>

definition read_error_code :: "'d response \<Rightarrow> int option" where
  "read_error_code r =
     (case envelope_status r of
        None \<Rightarrow> Some 0
      | Some st \<Rightarrow> (case error_code st of Missing \<Rightarrow> Some 0 | Null \<Rightarrow> None | Given n \<Rightarrow> Some n))"

definition read_error_message :: "'d response \<Rightarrow> string option" where
  "read_error_message r =
     (case envelope_status r of
        None \<Rightarrow> Some ''Unknown error''
      | Some st \<Rightarrow> (case error_message st of
                     Missing \<Rightarrow> Some ''Unknown error'' | Null \<Rightarrow> None | Given m \<Rightarrow> Some m))"

text \<open>The check of \<open>_request\<close> on a response that has arrived.\<close>

definition check_response :: "'d response \<Rightarrow> error + 'd response" where
  "check_response r =
     (let code = read_error_code r
      in if code \<noteq> Some 0 \<or> \<not> is_success r
         then Inl (CoinMarketCapAPIError (status_code r) (read_error_message r) code)
         else Inr r)"

record map_params =
  p_listing_status :: string
  p_start :: int
  p_limit :: int
  p_sort :: string
  p_symbol :: "string option"
  p_slug :: "string option"

record info_params =
  q_id :: "string option"
  q_symbol :: "string option"
  q_slug :: "string option"
  q_address :: "string option"

datatype request =
    Map_request map_params    \<comment> \<open>\<open>GET /v1/cryptocurrency/map\<close>\<close>
  | Info_request info_params  \<comment> \<open>\<open>GET /v2/cryptocurrency/info\<close>\<close>

text \<open>
  The remote side: what the transport returns for a request, given the requests sent
  before it. \<open>Inl\<close> is an exception of the transport (no response, or a body that is
  not JSON).
\<close>

record remote =
  map_reply :: "request list \<Rightarrow> map_params \<Rightarrow> string + entry list response"
  info_reply :: "request list \<Rightarrow> info_params \<Rightarrow> string + (string \<times> info_value) list response"

text \<open>\<open>_request\<close>: send, then check. The second component is the list of requests sent.\<close>

definition request_map ::
  "remote \<Rightarrow> map_params \<Rightarrow> request list \<Rightarrow> (error + entry list response) \<times> request list" where
  "request_map rm p sent =
     (case map_reply rm sent p of
        Inl exn \<Rightarrow> (Inl (TransportError exn), sent @ [Map_request p])
      | Inr r \<Rightarrow> (check_response r, sent @ [Map_request p]))"

definition request_info ::
  "remote \<Rightarrow> info_params \<Rightarrow> request list \<Rightarrow>
   (error + (string \<times> info_value) list response) \<times> request list" where
  "request_info rm q sent =
     (case info_reply rm sent q of
        Inl exn \<Rightarrow> (Inl (TransportError exn), sent @ [Info_request q])
      | Inr r \<Rightarrow> (check_response r, sent @ [Info_request q]))"

text \<open>\<open>if symbol: params["symbol"] = symbol\<close>\<close>

definition param :: "string option \<Rightarrow> string option" where
  "param v = (if truthy v then v else None)"

definition get_cryptocurrency_map ::
  "remote \<Rightarrow> string option \<Rightarrow> string option \<Rightarrow> string \<Rightarrow> int \<Rightarrow> int \<Rightarrow> string \<Rightarrow>
   request list \<Rightarrow> (error + entry list response) \<times> request list" where
  "get_cryptocurrency_map rm symbol slug listing_status start limit sort_by sent =
     request_map rm
       \<lparr>p_listing_status = listing_status, p_start = start, p_limit = limit,
        p_sort = sort_by, p_symbol = param symbol, p_slug = param slug\<rparr> sent"

definition get_cryptocurrency_info ::
  "remote \<Rightarrow> string option \<Rightarrow> string option \<Rightarrow> string option \<Rightarrow> string option \<Rightarrow>
   request list \<Rightarrow> (error + (string \<times> info_value) list response) \<times> request list" where
  "get_cryptocurrency_info rm ident symbol slug address sent =
     (if \<not> truthy ident \<and> \<not> truthy symbol \<and> \<not> truthy slug \<and> \<not> truthy address
      then (Inl (ValueError ''At least one of id, symbol, slug, or address is required''), sent)
      else request_info rm
             \<lparr>q_id = param ident, q_symbol = param symbol, q_slug = param slug,
              q_address = param address\<rparr> sent)"

text \<open>\<open>result.get("data", [])\<close> and \<open>result.get("data", {})\<close>\<close>

definition data_of :: "'a list response \<Rightarrow> 'a list" where
  "data_of r = (case envelope_data r of None \<Rightarrow> [] | Some d \<Rightarrow> d)"


section \<open>Candidates\<close>

datatype strategy = Exact_symbol | Symbol_variation | Slug | Fuzzy_name

datatype tier = Verified | High | Medium | Low

datatype match_kind = Exact_name | Contains | Reverse_contains | Word_overlap

text \<open>\<open>_homepage_match\<close>: \<open>"exact"\<close>, \<open>"domain"\<close> or \<open>False\<close>.\<close>

datatype homepage_outcome = Exact | Domain | No_match

text \<open>A candidate is a dictionary: the entry's keys and the keys the resolver adds; a key
  that is not set is \<open>None\<close> here.\<close>

record candidate =
  c_id :: int
  c_name :: string
  c_symbol :: string
  c_slug :: string
  c_rank :: "int field"
  match_method :: strategy
  confidence :: tier
  matched_query :: "string option"
  original_query :: "string option"
  similarity :: "rat option"
  match_type :: "match_kind option"
  warning :: "string option"
  homepage_match :: "homepage_outcome option"
  website_urls :: "string list option"

definition exact_symbol_candidate :: "string \<Rightarrow> entry \<Rightarrow> candidate" where
  "exact_symbol_candidate symbol_upper item =
     \<lparr>c_id = entry_id item, c_name = entry_name item, c_symbol = entry_symbol item,
      c_slug = entry_slug item, c_rank = entry_rank item,
      match_method = Exact_symbol, confidence = High, matched_query = Some symbol_upper,
      original_query = None, similarity = None, match_type = None, warning = None,
      homepage_match = None, website_urls = None\<rparr>"

definition variation_candidate :: "string \<Rightarrow> string \<Rightarrow> entry \<Rightarrow> candidate" where
  "variation_candidate variant original item =
     \<lparr>c_id = entry_id item, c_name = entry_name item, c_symbol = entry_symbol item,
      c_slug = entry_slug item, c_rank = entry_rank item,
      match_method = Symbol_variation, confidence = Medium, matched_query = Some variant,
      original_query = Some original, similarity = None, match_type = None, warning = None,
      homepage_match = None, website_urls = None\<rparr>"

definition slug_candidate :: "string \<Rightarrow> info \<Rightarrow> candidate" where
  "slug_candidate slug item =
     \<lparr>c_id = info_id item, c_name = info_name item, c_symbol = info_symbol item,
      c_slug = info_slug item, c_rank = Missing,
      match_method = Slug, confidence = Medium, matched_query = Some slug,
      original_query = None, similarity = None, match_type = None, warning = None,
      homepage_match = None, website_urls = None\<rparr>"

section \<open>Binary floating point\<close>

text \<open>
  A Python \<open>float\<close> is an IEEE 754 double. A double is modelled by the rational number
  it denotes: \<open>double x\<close> is the double nearest to \<open>x\<close> (ties to even, 53 significant
  bits), which is what a literal, a division of two integers, a product and a sum
  return. Only positive numbers in the normal range are needed.
\<close>

definition round_half_even :: "rat \<Rightarrow> int" where
  "round_half_even y =
     (let f = \<lfloor>y\<rfloor>; d = y - of_int f
      in if d < 1 / 2 then f else if d > 1 / 2 then f + 1 else if even f then f else f + 1)"

definition pow2 :: "int \<Rightarrow> rat" where
  "pow2 e = (if e \<ge> 0 then 2 ^ nat e else 1 / 2 ^ nat (- e))"

text \<open>The exponent \<open>e\<close> with \<open>2 ^ e \<le> x < 2 ^ (e + 1)\<close>, for \<open>x > 0\<close>.\<close>

definition binary_exponent :: "rat \<Rightarrow> int" where
  "binary_exponent x =
     (case quotient_of x of
        (a, b) \<Rightarrow> (let e = bitlen a - bitlen b in if x < pow2 e then e - 1 else e))"

definition double :: "rat \<Rightarrow> rat" where
  "double x =
     (if x \<le> 0 then 0
      else (let ulp = pow2 (binary_exponent x - 52)
            in of_int (round_half_even (x / ulp)) * ulp))"

text \<open>
  \<open>round(x, 2)\<close> rounds the exact value of the double to two decimals, ties to even, and
  returns the double nearest to that decimal. The result is written here as the decimal
  itself: two such doubles compare as their decimals do.
\<close>

definition round2 :: "rat \<Rightarrow> rat" where
  "round2 x = of_int (round_half_even (x * 100)) / 100"

section \<open>Fuzzy name match\<close>

text \<open>\<open>re.sub(r'[^a-z0-9]', '', s)\<close>\<close>

definition alnum_clean :: "string \<Rightarrow> string" where
  "alnum_clean s = filter (\<lambda>c. c \<in> set ascii_lowercase \<or> c \<in> set ascii_digits) s"

text \<open>\<open>sub in s\<close> on strings.\<close>

primrec contains :: "string \<Rightarrow> string \<Rightarrow> bool" where
  "contains [] sub = (sub = [])"
| "contains (c # cs) sub = (startswith (c # cs) sub \<or> contains cs sub)"

text \<open>The class \<open>\w\<close>: letters, digits and other numeric characters, and the underscore.\<close>

definition isword :: "char \<Rightarrow> bool" where
  "isword c \<longleftrightarrow> c \<in> set (ascii_lowercase @ ascii_uppercase @ ascii_digits @ ''_'' @
     latin1_lowercase @ latin1_uppercase @
     [CHR 0xAA, CHR 0xB5, CHR 0xBA, CHR 0xDF, CHR 0xFF,
      CHR 0xB2, CHR 0xB3, CHR 0xB9, CHR 0xBC, CHR 0xBD, CHR 0xBE])"

text \<open>\<open>re.findall(r'\w{3,}', s)\<close>: the maximal runs of word characters of length 3 or more.
  The first argument is the run being read.\<close>

definition emit :: "string \<Rightarrow> string list" where
  "emit run = (if length run \<ge> 3 then [run] else [])"

primrec findall_words :: "string \<Rightarrow> string \<Rightarrow> string list" where
  "findall_words run [] = emit run"
| "findall_words run (c # cs) =
     (if isword c then findall_words (run @ [c]) cs else emit run @ findall_words [] cs)"

text \<open>
  The scores \<open>1.0\<close>, \<open>0.9\<close>, \<open>0.85\<close> and \<open>0.0\<close> are written as the decimals the
  literals denote; a word-overlap score is the value of the double that
  \<open>0.6 + (len(overlap) / max(...) * 0.3)\<close> computes. The threshold test and the
  rounding below give Python's results on both.
\<close>

definition similarity_of :: "string \<Rightarrow> string \<Rightarrow> entry \<Rightarrow> rat \<times> match_kind option" where
  "similarity_of name_lower name_clean item =
     (let item_name = lower (entry_name item);
          item_slug = lower (entry_slug item);
          item_name_clean = alnum_clean item_name;
          item_slug_clean = alnum_clean item_slug
      in if name_clean = item_name_clean \<or> name_clean = item_slug_clean
           then (1, Some Exact_name)
         else if contains item_name_clean name_clean \<or> contains item_slug_clean name_clean
           then (9 / 10, Some Contains)
         else if contains name_clean item_name_clean \<or> contains name_clean item_slug_clean
           then (if length item_name_clean \<ge> 5 then (85 / 100, Some Reverse_contains)
                 else (0, None))
         else
           (let query_words = remdups (findall_words [] name_lower);
                name_words = remdups (findall_words [] item_name)
            in if query_words \<noteq> [] \<and> name_words \<noteq> []
               then (let overlap = filter (\<lambda>w. w \<in> set name_words) query_words
                     in if overlap \<noteq> []
                        then (double (double (6 / 10) +
                                double (double (of_nat (length overlap) /
                                          of_nat (max (length query_words) (length name_words))) *
                                        double (3 / 10))),
                              Some Word_overlap)
                        else (0, None))
               else (0, None)))"

record fuzzy_match =
  fm_entry :: entry
  fm_similarity :: rat
  fm_match_type :: "match_kind option"

definition keep_match :: "string \<Rightarrow> string \<Rightarrow> entry \<Rightarrow> fuzzy_match list" where
  "keep_match name_lower name_clean item =
     (case similarity_of name_lower name_clean item of
        (sim, kind) \<Rightarrow>
          if sim \<ge> double (6 / 10)
          then [\<lparr>fm_entry = item, fm_similarity = round2 sim, fm_match_type = kind\<rparr>]
          else [])"

text \<open>
  The sort key \<open>(-x.get("_similarity", 0), x.get("rank", 99999))\<close>. A rank that is
  present and null gives the key \<open>None\<close>: the sort compares two keys as tuples, so where
  the similarities are equal it compares the ranks, and \<open>None\<close> against an integer
  raises \<open>TypeError\<close> (\<open>None\<close> against \<open>None\<close> is equal, no comparison of order is
  made). Two matches of equal similarity, one with a null rank and one without, cannot
  be put in order without that comparison: the sort raises, and the function returns
  the empty list. Otherwise null ranks only meet null ranks, as ties.
\<close>

definition fuzzy_key :: "fuzzy_match \<Rightarrow> rat \<times> int" where
  "fuzzy_key m =
     (- fm_similarity m,
      case entry_rank (fm_entry m) of Missing \<Rightarrow> 99999 | Null \<Rightarrow> 0 | Given r \<Rightarrow> r)"

definition sort_raises :: "fuzzy_match list \<Rightarrow> bool" where
  "sort_raises ms \<longleftrightarrow>
     list_ex (\<lambda>a. list_ex (\<lambda>b. fm_similarity a = fm_similarity b \<and>
                               entry_rank (fm_entry a) = Null \<and>
                               entry_rank (fm_entry b) \<noteq> Null) ms) ms"

definition fuzzy_search_by_name ::
  "remote \<Rightarrow> string \<Rightarrow> request list \<Rightarrow> fuzzy_match list \<times> request list" where
  "fuzzy_search_by_name rm name sent =
     (let name_lower = strip (lower name);
          name_clean = alnum_clean name_lower
      in case get_cryptocurrency_map rm None None ''active'' 1 5000 ''cmc_rank'' sent of
           (Inl e, sent') \<Rightarrow> ([], sent')
         | (Inr result, sent') \<Rightarrow>
             (let matches = concat (map (keep_match name_lower name_clean) (data_of result))
              in if sort_raises matches then ([], sent')
                 else (take 5 (sort_key fuzzy_key matches), sent')))"

definition fuzzy_candidate :: "fuzzy_match \<Rightarrow> candidate" where
  "fuzzy_candidate m =
     \<lparr>c_id = entry_id (fm_entry m), c_name = entry_name (fm_entry m),
      c_symbol = entry_symbol (fm_entry m), c_slug = entry_slug (fm_entry m),
      c_rank = entry_rank (fm_entry m),
      match_method = Fuzzy_name, confidence = Low, matched_query = None,
      original_query = None, similarity = Some (fm_similarity m),
      match_type = fm_match_type m,
      warning = Some ''Fuzzy match - verify with homepage or manual check'',
      homepage_match = None, website_urls = None\<rparr>"

section \<open>Homepage verification\<close>

text \<open>The body of the loop, for a candidate whose id is a key of the metadata.\<close>

definition check_homepage :: "string \<Rightarrow> info \<Rightarrow> candidate \<Rightarrow> candidate" where
  "check_homepage homepage meta c =
     (let urls = website meta;
          exact_match = list_ex (\<lambda>url. normalize_url url = normalize_url homepage) urls;
          domain_match = list_ex (\<lambda>url. extract_domain url = extract_domain homepage) urls
      in if exact_match
           then c\<lparr>confidence := Verified, homepage_match := Some Exact,
                  website_urls := Some urls, warning := None\<rparr>
         else if domain_match
           then c\<lparr>confidence := (if confidence c = Low then Medium else confidence c),
                  homepage_match := Some Domain, website_urls := Some urls\<rparr>
         else c\<lparr>homepage_match := Some No_match, website_urls := Some urls\<rparr>)"

text \<open>The loop over all candidates. A value that is a list has no \<open>get\<close>: the exception
  ends the loop, and the candidates updated so far stay updated.\<close>

fun verify_loop :: "(string \<times> info_value) list \<Rightarrow> string \<Rightarrow> candidate list \<Rightarrow> candidate list" where
  "verify_loop info_data homepage [] = []"
| "verify_loop info_data homepage (c # cs) =
     (case map_of info_data (str_int (c_id c)) of
        None \<Rightarrow> c # verify_loop info_data homepage cs
      | Some (Single meta) \<Rightarrow> check_homepage homepage meta c # verify_loop info_data homepage cs
      | Some (Several metas) \<Rightarrow> c # cs)"

definition verify_candidates_by_homepage ::
  "remote \<Rightarrow> candidate list \<Rightarrow> string \<Rightarrow> request list \<Rightarrow> candidate list \<times> request list" where
  "verify_candidates_by_homepage rm candidates homepage sent =
     (let ids_to_check = map (\<lambda>c. str_int (c_id c)) (take 10 candidates)
      in if ids_to_check = [] then (candidates, sent)
         else case get_cryptocurrency_info rm (Some (join '','' ids_to_check)) None None None sent of
                (Inl e, sent') \<Rightarrow> (candidates, sent')
              | (Inr info_result, sent') \<Rightarrow>
                  (verify_loop (data_of info_result) homepage candidates, sent'))"


section \<open>Progressive search\<close>

text \<open>
  The process: the two environment variables, the cached client (\<open>_client\<close>, here the
  key it was built with) and the requests sent so far.
\<close>

record world =
  env_primary :: "string option"    \<comment> \<open>\<open>COINMARKETCAP_API_KEY\<close>\<close>
  env_fallback :: "string option"   \<comment> \<open>\<open>CMC_API_KEY\<close>\<close>
  client :: "string option"
  sent :: "request list"

definition get_client :: "world \<Rightarrow> (error + string) \<times> world" where
  "get_client w =
     (case client w of
        Some k \<Rightarrow> (Inr k, w)
      | None \<Rightarrow>
          (let api_key = (if truthy (env_primary w) then env_primary w else env_fallback w)
           in case api_key of
                Some k \<Rightarrow>
                  if k \<noteq> [] then (Inr k, w\<lparr>client := Some k\<rparr>)
                  else (Inl (ValueError (''COINMARKETCAP_API_KEY or CMC_API_KEY environment variable is required. '' @
                          ''Get your free API key at https://coinmarketcap.com/api/'')), w)
              | None \<Rightarrow>
                  (Inl (ValueError (''COINMARKETCAP_API_KEY or CMC_API_KEY environment variable is required. '' @
                          ''Get your free API key at https://coinmarketcap.com/api/'')), w)))"

text \<open>The state of a search: the candidates, the log, the requests sent.\<close>

type_synonym progress = "candidate list \<times> string list \<times> request list"

text \<open>Strategy 1: exact symbol.\<close>

definition exact_symbol :: "remote \<Rightarrow> string option \<Rightarrow> progress \<Rightarrow> progress" where
  "exact_symbol rm symbol st =
     (case st of (candidates, search_log, sent0) \<Rightarrow>
        (case symbol of
           None \<Rightarrow> st
         | Some symb \<Rightarrow>
             if symb = [] then st
             else
               (let symbol_upper = strip (upper symb)
                in case get_cryptocurrency_map rm (Some symbol_upper) None ''active'' 1 100
                          ''cmc_rank'' sent0 of
                     (Inr result, sent1) \<Rightarrow>
                       if data_of result \<noteq> []
                       then (candidates @ map (exact_symbol_candidate symbol_upper) (data_of result),
                             search_log @ [''exact_symbol('' @ symbol_upper @ ''): '' @
                                           str_nat (length (data_of result)) @ '' found''],
                             sent1)
                       else (candidates, search_log, sent1)
                   | (Inl e, sent1) \<Rightarrow>
                       (candidates,
                        search_log @ [''exact_symbol('' @ symbol_upper @ ''): failed - '' @ str_error e],
                        sent1))))"

text \<open>Strategy 2: the loop over the variants. \<open>original\<close> is \<open>symbol.upper()\<close>.\<close>

fun try_variations :: "remote \<Rightarrow> string \<Rightarrow> string list \<Rightarrow> progress \<Rightarrow> progress" where
  "try_variations rm original [] st = st"
| "try_variations rm original (variant # rest) (candidates, search_log, sent0) =
     (if variant = original then try_variations rm original rest (candidates, search_log, sent0)
      else case get_cryptocurrency_map rm (Some variant) None ''active'' 1 100 ''cmc_rank'' sent0 of
             (Inr result, sent1) \<Rightarrow>
               if data_of result \<noteq> []
               then (candidates @ map (variation_candidate variant original) (data_of result),
                     search_log @ [''symbol_variation('' @ variant @ ''): '' @
                                   str_nat (length (data_of result)) @ '' found''],
                     sent1)
               else try_variations rm original rest (candidates, search_log, sent1)
           | (Inl e, sent1) \<Rightarrow>
               try_variations rm original rest
                 (candidates, search_log @ [''symbol_variation('' @ variant @ ''): no match''], sent1))"

definition symbol_variation :: "remote \<Rightarrow> string option \<Rightarrow> progress \<Rightarrow> progress" where
  "symbol_variation rm symbol st =
     (case st of (candidates, search_log, sent0) \<Rightarrow>
        (case symbol of
           None \<Rightarrow> st
         | Some symb \<Rightarrow>
             if symb \<noteq> [] \<and> candidates = []
             then try_variations rm (upper symb) (generate_symbol_variations symb) st
             else st))"

text \<open>Strategy 3: slug from the name. Each value of the mapping is one entry or a list.\<close>

fun flatten_info :: "string \<Rightarrow> string \<times> info_value \<Rightarrow> candidate list" where
  "flatten_info slug (key, Several metas) = map (slug_candidate slug) metas"
| "flatten_info slug (key, Single meta) = [slug_candidate slug meta]"

definition slug_match :: "remote \<Rightarrow> string option \<Rightarrow> progress \<Rightarrow> progress" where
  "slug_match rm name st =
     (case st of (candidates, search_log, sent0) \<Rightarrow>
        (case name of
           None \<Rightarrow> st
         | Some nm \<Rightarrow>
             if nm \<noteq> [] \<and> candidates = []
             then
               (let slug = name_to_slug nm
                in case get_cryptocurrency_info rm None None (Some slug) None sent0 of
                     (Inr result, sent1) \<Rightarrow>
                       if data_of result \<noteq> []
                       then (let grown = candidates @ concat (map (flatten_info slug) (data_of result))
                             in (grown,
                                 search_log @ [''slug('' @ slug @ ''): '' @ str_nat (length grown) @
                                               '' found''],
                                 sent1))
                       else (candidates, search_log, sent1)
                   | (Inl e, sent1) \<Rightarrow>
                       (candidates,
                        search_log @ [''slug('' @ slug @ ''): no match - '' @ str_error e],
                        sent1))
             else st))"

text \<open>Strategy 4: fuzzy name match.\<close>

definition fuzzy_name :: "remote \<Rightarrow> string option \<Rightarrow> progress \<Rightarrow> progress" where
  "fuzzy_name rm name st =
     (case st of (candidates, search_log, sent0) \<Rightarrow>
        (case name of
           None \<Rightarrow> st
         | Some nm \<Rightarrow>
             if nm \<noteq> [] \<and> candidates = []
             then
               (case fuzzy_search_by_name rm nm sent0 of
                  (fuzzy_matches, sent1) \<Rightarrow>
                    if fuzzy_matches \<noteq> []
                    then (candidates @ map fuzzy_candidate fuzzy_matches,
                          search_log @ [''fuzzy_name('' @ nm @ ''): '' @
                                        str_nat (length fuzzy_matches) @ '' found''],
                          sent1)
                    else (candidates, search_log @ [''fuzzy_name('' @ nm @ ''): no match''], sent1))
             else st))"

text \<open>Strategy 5: homepage verification.\<close>

definition homepage_verification :: "remote \<Rightarrow> string option \<Rightarrow> progress \<Rightarrow> progress" where
  "homepage_verification rm homepage st =
     (case st of (candidates, search_log, sent0) \<Rightarrow>
        (case homepage of
           None \<Rightarrow> st
         | Some hp \<Rightarrow>
             if hp \<noteq> [] \<and> candidates \<noteq> []
             then
               (case verify_candidates_by_homepage rm candidates hp sent0 of
                  (verified, sent1) \<Rightarrow>
                    (verified,
                     search_log @ [''homepage_verification: checked '' @ str_nat (length verified) @
                                   '' candidates''],
                     sent1))
             else st))"

text \<open>The candidates in discovery order, before the final sort.\<close>

definition discover ::
  "remote \<Rightarrow> string option \<Rightarrow> string option \<Rightarrow> string option \<Rightarrow> request list \<Rightarrow> progress" where
  "discover rm name symbol homepage sent0 =
     homepage_verification rm homepage
       (fuzzy_name rm name
         (slug_match rm name
           (symbol_variation rm symbol
             (exact_symbol rm symbol ([], [], sent0)))))"

text \<open>\<open>confidence_order = {"verified": 0, "high": 1, "medium": 2, "low": 3}\<close>\<close>

fun confidence_order :: "tier \<Rightarrow> nat" where
  "confidence_order Verified = 0"
| "confidence_order High = 1"
| "confidence_order Medium = 2"
| "confidence_order Low = 3"

record query =
  query_name :: "string option"
  query_symbol :: "string option"
  query_homepage :: "string option"

record search_result =
  query_echo :: query
  found :: bool
  match_count :: nat
  best_match :: "candidate option"
  all_matches :: "candidate list"
  search_log :: "string list"
  warnings :: "string list option"

definition low_warning :: "candidate list \<Rightarrow> string list" where
  "low_warning candidates =
     (case candidates of
        [] \<Rightarrow> []
      | c # cs \<Rightarrow>
          if confidence c = Low
          then [''Best match is low confidence - provide homepage URL for verification'']
          else [])"

definition multiple_warning :: "candidate list \<Rightarrow> string option \<Rightarrow> string list" where
  "multiple_warning candidates homepage =
     (if length candidates > 1 \<and> \<not> truthy homepage
      then [''Multiple matches ('' @ str_nat (length candidates) @
            '') - provide homepage URL to disambiguate'']
      else [])"

text \<open>The final step: the stable sort by confidence and the result dictionary.\<close>

definition build_result ::
  "string option \<Rightarrow> string option \<Rightarrow> string option \<Rightarrow> candidate list \<Rightarrow> string list \<Rightarrow>
   search_result" where
  "build_result name symbol homepage discovered trace =
     (let candidates = sort_key (\<lambda>x. confidence_order (confidence x)) discovered;
          ws = low_warning candidates @ multiple_warning candidates homepage
      in \<lparr>query_echo = \<lparr>query_name = name, query_symbol = symbol, query_homepage = homepage\<rparr>,
          found = (length candidates > 0),
          match_count = length candidates,
          best_match = (case candidates of [] \<Rightarrow> None | c # cs \<Rightarrow> Some c),
          all_matches = take 10 candidates,
          search_log = trace,
          warnings = (if ws \<noteq> [] then Some ws else None)\<rparr>)"

definition search_cryptocurrency ::
  "remote \<Rightarrow> string option \<Rightarrow> string option \<Rightarrow> string option \<Rightarrow> world \<Rightarrow>
   (error + search_result) \<times> world" where
  "search_cryptocurrency rm name symbol homepage w =
     (if \<not> (truthy name \<or> truthy symbol)
      then (Inl (ValueError ''At least one of name or symbol is required''), w)
      else case get_client w of
             (Inl e, w1) \<Rightarrow> (Inl e, w1)
           | (Inr key, w1) \<Rightarrow>
               (case discover rm name symbol homepage (sent w1) of
                  (discovered, trace, sent1) \<Rightarrow>
                    (Inr (build_result name symbol homepage discovered trace),
                     w1\<lparr>sent := sent1\<rparr>)))"


section \<open>Notions used by the properties\<close>

text \<open>The alphabet of a slug, and pairs of characters that are not two hyphens in a row.\<close>

definition slug_char :: "char \<Rightarrow> bool" where
  "slug_char c \<longleftrightarrow> c \<in> set ascii_lowercase \<or> c \<in> set ascii_digits \<or> c = CHR ''-''"

definition apart :: "char \<Rightarrow> char \<Rightarrow> bool" where
  "apart a b \<longleftrightarrow> \<not> (a = CHR ''-'' \<and> b = CHR ''-'')"

abbreviation hyphen :: "char \<Rightarrow> bool" where
  "hyphen \<equiv> (\<lambda>c. c = CHR ''-'')"

abbreviation no_hyphen_pair :: "string \<Rightarrow> bool" where
  "no_hyphen_pair \<equiv> successively apart"

text \<open>Tier \<open>t1\<close> is ranked above tier \<open>t2\<close>.\<close>

definition ranked_above :: "tier \<Rightarrow> tier \<Rightarrow> bool" where
  "ranked_above t1 t2 \<longleftrightarrow> confidence_order t1 < confidence_order t2"

text \<open>The process has a client or an API key to build one from.\<close>

definition configured :: "world \<Rightarrow> bool" where
  "configured w \<longleftrightarrow> client w \<noteq> None \<or> truthy (env_primary w) \<or> truthy (env_fallback w)"

definition log_of :: "progress \<Rightarrow> string list" where
  "log_of st = fst (snd st)"

text \<open>Sample data: a successful envelope, a process with an API key, and remotes.\<close>

definition ok :: "'d \<Rightarrow> 'd response" where
  "ok d = \<lparr>status_code = 200,
           envelope_status = Some \<lparr>error_code = Given 0, error_message = Null\<rparr>,
           envelope_data = Some d\<rparr>"

definition keyed_world :: world where
  "keyed_world = \<lparr>env_primary = Some ''test-api-key'', env_fallback = None, client = None, sent = []\<rparr>"

definition bitcoin :: entry where
  "bitcoin = \<lparr>entry_id = 1, entry_name = ''Bitcoin'', entry_symbol = ''BTC'',
              entry_slug = ''bitcoin'', entry_rank = Given 1\<rparr>"

definition ethereum :: entry where
  "ethereum = \<lparr>entry_id = 1027, entry_name = ''Ethereum'', entry_symbol = ''ETH'',
               entry_slug = ''ethereum'', entry_rank = Given 2\<rparr>"

definition bitcoin_info :: info where
  "bitcoin_info = \<lparr>info_id = 1, info_name = ''Bitcoin'', info_symbol = ''BTC'',
                   info_slug = ''bitcoin'', website = [''https://bitcoin.org'']\<rparr>"

definition ethereum_info :: info where
  "ethereum_info = \<lparr>info_id = 1027, info_name = ''Ethereum'', info_symbol = ''ETH'',
                    info_slug = ''ethereum'', website = [''https://www.ethereum.org/'']\<rparr>"

text \<open>A catalog that lists nothing, and a catalog whose every answer is the sample map.\<close>

definition empty_remote :: remote where
  "empty_remote = \<lparr>map_reply = (\<lambda>before p. Inr (ok [])),
                   info_reply = (\<lambda>before q. Inr (ok []))\<rparr>"

definition sample_remote :: remote where
  "sample_remote = \<lparr>map_reply = (\<lambda>before p. Inr (ok [bitcoin, ethereum])),
                    info_reply = (\<lambda>before q. Inr (ok [(''1'', Single bitcoin_info),
                                                          (''1027'', Single ethereum_info)]))\<rparr>"

text \<open>A catalog that cannot be reached.\<close>

definition failing_remote :: remote where
  "failing_remote = \<lparr>map_reply = (\<lambda>before p. Inl ''connection refused''),
                     info_reply = (\<lambda>before q. Inl ''connection refused'')\<rparr>"

text \<open>The exact-symbol lookup of a symbol, as a request.\<close>

definition lookup :: "string \<Rightarrow> request" where
  "lookup symbol = Map_request \<lparr>p_listing_status = ''active'', p_start = 1, p_limit = 100,
                                p_sort = ''cmc_rank'', p_symbol = Some symbol, p_slug = None\<rparr>"

text \<open>The sample search: symbol \<open>btc\<close> with the homepage of Ethereum.\<close>

definition sample_discovered :: "candidate list" where
  "sample_discovered =
     [(exact_symbol_candidate ''BTC'' bitcoin)
        \<lparr>homepage_match := Some No_match, website_urls := Some [''https://bitcoin.org'']\<rparr>,
      (exact_symbol_candidate ''BTC'' ethereum)
        \<lparr>confidence := Verified, homepage_match := Some Exact,
          website_urls := Some [''https://www.ethereum.org/'']\<rparr>]"

definition sample_result :: search_result where
  "sample_result =
     build_result None (Some ''btc'') (Some ''ethereum.org'') sample_discovered
       [''exact_symbol(BTC): 2 found'', ''homepage_verification: checked 2 candidates'']"

definition sample_world :: world where
  "sample_world =
     keyed_world\<lparr>client := Some ''test-api-key'',
       sent := [lookup ''BTC'',
                Info_request \<lparr>q_id = Some ''1,1027'', q_symbol = None, q_slug = None,
                               q_address = None\<rparr>]\<rparr>"

definition btc_params :: map_params where
  "btc_params = \<lparr>p_listing_status = ''active'', p_start = 1, p_limit = 100,
                 p_sort = ''cmc_rank'', p_symbol = Some ''BTC'', p_slug = None\<rparr>"

text \<open>A response with HTTP status 200 whose envelope reports an application error.\<close>

definition rejected :: "entry list response" where
  "rejected = \<lparr>status_code = 200,
               envelope_status = Some \<lparr>error_code = Given 1001, error_message = Given ''This API Key is invalid.''\<rparr>,
               envelope_data = None\<rparr>"

text \<open>Entries and a catalog for the fuzzy name match; a symbol that ends in a superscript
  digit; a fuzzy candidate for Ethereum.\<close>

definition sln :: entry where
  "sln = \<lparr>entry_id = 5426, entry_name = ''SLN'', entry_symbol = ''SLN'',
          entry_slug = ''solana'', entry_rank = Given 5\<rparr>"

definition alpha_beta :: entry where
  "alpha_beta = \<lparr>entry_id = 77, entry_name = ''Alpha Beta'', entry_symbol = ''ALB'',
                 entry_slug = ''ab'', entry_rank = Given 900\<rparr>"

definition solana_remote :: remote where
  "solana_remote = \<lparr>map_reply = (\<lambda>before p. Inr (ok [sln])),
                    info_reply = (\<lambda>before q. Inr (ok []))\<rparr>"

definition superscript_symbol :: string where
  "superscript_symbol = [CHR ''A'', CHR 0xB2]"

definition ethereum_guess :: candidate where
  "ethereum_guess =
     fuzzy_candidate \<lparr>fm_entry = ethereum, fm_similarity = 9 / 10, fm_match_type = Some Contains\<rparr>"








text \<open>What the fuzzy name match keeps of an entry when the query has no letter or digit.\<close>

definition empty_query_match :: "entry \<Rightarrow> fuzzy_match" where
  "empty_query_match item =
     (if alnum_clean (lower (entry_name item)) = [] \<or> alnum_clean (lower (entry_slug item)) = []
      then \<lparr>fm_entry = item, fm_similarity = 1, fm_match_type = Some Exact_name\<rparr>
      else \<lparr>fm_entry = item, fm_similarity = 9 / 10, fm_match_type = Some Contains\<rparr>)"

text \<open>An entry without a slug; a catalog page of seven entries, the last ranked first; a
  page with a null rank.\<close>

definition unslugged :: entry where
  "unslugged = \<lparr>entry_id = 1, entry_name = ''Bitcoin'', entry_symbol = ''BTC'',
                entry_slug = [], entry_rank = Given 1\<rparr>"

definition coin :: "int \<Rightarrow> entry" where
  "coin i = \<lparr>entry_id = i, entry_name = ''Coin '' @ str_int i, entry_symbol = ''C'' @ str_int i,
             entry_slug = ''coin-'' @ str_int i, entry_rank = Given (8 - i)\<rparr>"

definition ranked_remote :: remote where
  "ranked_remote = \<lparr>map_reply = (\<lambda>before p. Inr (ok (map coin [1, 2, 3, 4, 5, 6, 7]))),
                    info_reply = (\<lambda>before q. Inr (ok []))\<rparr>"

definition unranked_remote :: remote where
  "unranked_remote =
     \<lparr>map_reply = (\<lambda>before p. Inr (ok [bitcoin, ethereum\<lparr>entry_rank := Null\<rparr>])),
      info_reply = (\<lambda>before q. Inr (ok []))\<rparr>"

section \<open>Properties\<close>

lemmas text_defs =
  ascii_lowercase_def ascii_uppercase_def ascii_digits_def latin1_uppercase_def
  latin1_lowercase_def isspace_def isdigit_def lower_char_def upper_char_def lower_def
  upper_def lstrip_chars_def rstrip_chars_def strip_chars_def strip_def startswith_def
  endswith_def

subsection \<open>Slug derivation\<close>

lemma slug_char_not_space: "slug_char c \<Longrightarrow> \<not> isspace c"
  by (auto simp: slug_char_def isspace_def ascii_lowercase_def ascii_digits_def)

lemma slug_char_not_underscore: "slug_char c \<Longrightarrow> c \<noteq> CHR ''_''"
  by (auto simp: slug_char_def ascii_lowercase_def ascii_digits_def)

lemma slug_char_keep: "slug_char c \<Longrightarrow> slug_keep c"
  by (auto simp: slug_char_def slug_keep_def)

lemma lower_char_fixed: "c \<notin> set (ascii_uppercase @ latin1_uppercase) \<Longrightarrow> lower_char c = c"
proof -
  assume a: "c \<notin> set (ascii_uppercase @ latin1_uppercase)"
  have "length (ascii_uppercase @ latin1_uppercase) = length (ascii_lowercase @ latin1_lowercase)"
    by (simp add: ascii_uppercase_def latin1_uppercase_def ascii_lowercase_def latin1_lowercase_def)
  then have "map_of (zip (ascii_uppercase @ latin1_uppercase)
      (ascii_lowercase @ latin1_lowercase)) c = None"
    using a map_of_zip_is_None [of "ascii_uppercase @ latin1_uppercase"
        "ascii_lowercase @ latin1_lowercase" c] by blast
  then show ?thesis by (simp only: lower_char_def option.case)
qed

lemma slug_char_not_upper: "slug_char c \<Longrightarrow> c \<notin> set (ascii_uppercase @ latin1_uppercase)"
  unfolding slug_char_def ascii_lowercase_def ascii_digits_def ascii_uppercase_def latin1_uppercase_def
  by (elim disjE; simp; elim disjE; simp)

lemma slug_char_lower: "slug_char c \<Longrightarrow> lower_char c = c"
  by (rule lower_char_fixed) (rule slug_char_not_upper)

lemma apart_sym: "(\<lambda>x y. apart y x) = apart"
  by (auto simp: apart_def fun_eq_iff)

lemma sub_runs_none: "\<forall>c\<in>set s. \<not> P c \<Longrightarrow> sub_runs P r s = s"
  by (induction s) auto

lemma set_sub_runs: "set (sub_runs P r s) \<subseteq> set r \<union> {c \<in> set s. \<not> P c}"
proof (induction P r s rule: sub_runs.induct)
  case (1 P r)
  show ?case by simp
next
  case (2 P r c cs)
  show ?case
  proof (cases "P c")
    case True
    with 2 show ?thesis by (auto dest: set_dropWhileD)
  next
    case False
    with 2 show ?thesis by auto
  qed
qed

lemma hd_sub_runs_dropWhile:
  "sub_runs P r (dropWhile P cs) = [] \<or> \<not> P (hd (sub_runs P r (dropWhile P cs)))"
proof (cases "dropWhile P cs")
  case Nil
  then show ?thesis by (simp del: dropWhile_eq_Nil_conv)
next
  case (Cons d ds)
  then have "\<not> P d" using hd_dropWhile [of P cs] by simp
  with Cons show ?thesis by simp
qed

lemma no_hyphen_pair_sub_runs: "no_hyphen_pair (sub_runs hyphen ''-'' s)"
proof (induction "hyphen" "''-''" s rule: sub_runs.induct)
  case 1
  show ?case by simp
next
  case (2 c cs)
  show ?case
  proof (cases "c = CHR ''-''")
    case True
    with 2 hd_sub_runs_dropWhile [of hyphen "''-''" cs] show ?thesis
      by (auto simp: successively_Cons apart_def)
  next
    case False
    with 2 show ?thesis by (auto simp: successively_Cons apart_def)
  qed
qed

lemma sub_runs_no_hyphen_pair: "no_hyphen_pair s \<Longrightarrow> sub_runs hyphen ''-'' s = s"
proof (induction s)
  case Nil
  show ?case by simp
next
  case (Cons c cs)
  then have tl: "sub_runs hyphen ''-'' cs = cs" by (auto simp: successively_Cons)
  show ?case
  proof (cases "c = CHR ''-''")
    case True
    with Cons.prems have "dropWhile hyphen cs = cs"
      by (cases cs) (auto simp: apart_def)
    with True tl show ?thesis by simp
  next
    case False
    with tl show ?thesis by simp
  qed
qed

lemma no_hyphen_pair_dropWhile: "no_hyphen_pair s \<Longrightarrow> no_hyphen_pair (dropWhile P s)"
proof -
  assume "no_hyphen_pair s"
  then have "no_hyphen_pair (takeWhile P s @ dropWhile P s)" by simp
  then show ?thesis unfolding successively_append_iff by simp
qed

lemma no_hyphen_pair_strip_chars: "no_hyphen_pair s \<Longrightarrow> no_hyphen_pair (strip_chars chars s)"
proof -
  assume a: "no_hyphen_pair s"
  note sym = apart_sym
  from a have "no_hyphen_pair (lstrip_chars chars s)"
    unfolding lstrip_chars_def by (rule no_hyphen_pair_dropWhile)
  then have "no_hyphen_pair (rev (lstrip_chars chars s))"
    unfolding successively_rev apart_sym .
  then have "no_hyphen_pair (dropWhile (\<lambda>c. c \<in> set chars) (rev (lstrip_chars chars s)))"
    by (rule no_hyphen_pair_dropWhile)
  then show ?thesis
    unfolding strip_chars_def rstrip_chars_def successively_rev apart_sym .
qed

lemma set_strip_chars: "set (strip_chars chars s) \<subseteq> set s"
  by (auto simp: strip_chars_def rstrip_chars_def lstrip_chars_def dest!: set_dropWhileD)

lemma both_ends_fixed:
  assumes "s = [] \<or> (\<not> P (hd s) \<and> \<not> P (last s))"
  shows "rev (dropWhile P (rev (dropWhile P s))) = s"
proof -
  from assms have 1: "dropWhile P s = s" by (auto simp: dropWhile_eq_self_iff)
  from assms have "dropWhile P (rev s) = rev s"
    by (auto simp: dropWhile_eq_self_iff hd_rev)
  with 1 show ?thesis by simp
qed

lemma both_ends_result:
  "rev (dropWhile P (rev (dropWhile P s))) = [] \<or>
   (\<not> P (hd (rev (dropWhile P (rev (dropWhile P s))))) \<and>
    \<not> P (last (rev (dropWhile P (rev (dropWhile P s))))))"
proof -
  define t where "t = dropWhile P s"
  define u where "u = dropWhile P (rev t)"
  show ?thesis
  proof (cases "u = []")
    case True
    then show ?thesis by (simp add: u_def t_def)
  next
    case False
    then have lastu: "\<not> P (hd u)" unfolding u_def by (rule hd_dropWhile)
    from False have tne: "t \<noteq> []" by (auto simp: u_def)
    then have hdt: "\<not> P (hd t)" unfolding t_def by (rule hd_dropWhile)
    have "rev t = takeWhile P (rev t) @ u" by (simp add: u_def)
    then have "t = rev u @ rev (takeWhile P (rev t))"
      by (metis rev_append rev_rev_ident)
    with False have "hd t = hd (rev u)" by (metis hd_append2 rev_is_Nil_conv)
    with hdt lastu False show ?thesis
      by (simp add: u_def [symmetric] t_def [symmetric] last_rev)
  qed
qed

lemma name_to_slug_chars: "\<forall>c\<in>set (name_to_slug n). slug_char c"
proof
  fix c assume "c \<in> set (name_to_slug n)"
  then have "c \<in> set (sub_runs hyphen ''-'' (sub_runs (\<lambda>c. isspace c \<or> c = CHR ''_'') ''-''
      (filter slug_keep (strip (lower n)))))"
    using set_strip_chars by (fastforce simp: name_to_slug_def Let_def)
  then have "c = CHR ''-'' \<or> c \<in> set (sub_runs (\<lambda>c. isspace c \<or> c = CHR ''_'') ''-''
      (filter slug_keep (strip (lower n))))"
    using set_sub_runs [of hyphen "''-''"] by fastforce
  then have "c = CHR ''-'' \<or> (slug_keep c \<and> \<not> isspace c)"
    using set_sub_runs [of "\<lambda>c. isspace c \<or> c = CHR ''_''" "''-''"
        "filter slug_keep (strip (lower n))"] by fastforce
  then show "slug_char c" by (auto simp: slug_char_def slug_keep_def)
qed

lemma name_to_slug_no_hyphen_pair: "no_hyphen_pair (name_to_slug n)"
  by (simp add: name_to_slug_def Let_def no_hyphen_pair_strip_chars no_hyphen_pair_sub_runs)

lemma name_to_slug_ends:
  "name_to_slug n = [] \<or> (hd (name_to_slug n) \<noteq> CHR ''-'' \<and> last (name_to_slug n) \<noteq> CHR ''-'')"
  using both_ends_result [of "\<lambda>c. c \<in> set ''-''"]
  by (simp add: name_to_slug_def Let_def strip_chars_def rstrip_chars_def lstrip_chars_def)

lemma slug_fixed:
  assumes chars: "\<forall>c\<in>set s. slug_char c"
    and pairs: "no_hyphen_pair s"
    and ends: "s = [] \<or> (hd s \<noteq> CHR ''-'' \<and> last s \<noteq> CHR ''-'')"
  shows "name_to_slug s = s"
proof -
  have 1: "lower s = s"
    using chars by (simp add: lower_def slug_char_lower map_idI)
  have "s = [] \<or> (\<not> isspace (hd s) \<and> \<not> isspace (last s))"
    using chars slug_char_not_space by (cases s) auto
  then have 2: "strip s = s" unfolding strip_def by (rule both_ends_fixed)
  have 3: "filter slug_keep s = s"
    using chars by (simp add: slug_char_keep)
  have 4: "sub_runs (\<lambda>c. isspace c \<or> c = CHR ''_'') ''-'' s = s"
    using chars slug_char_not_space slug_char_not_underscore by (intro sub_runs_none) auto
  have 5: "sub_runs hyphen ''-'' s = s"
    using pairs by (rule sub_runs_no_hyphen_pair)
  have 6: "strip_chars ''-'' s = s"
    using ends both_ends_fixed [of s "\<lambda>c. c \<in> set ''-''"]
    by (simp add: strip_chars_def rstrip_chars_def lstrip_chars_def)
  show ?thesis by (simp add: name_to_slug_def Let_def 1 2 3 4 5 6)
qed

text \<open>
  C7. Slug derivation is idempotent: deriving a slug from a derived slug gives the same
  string. \<open>"Render Token"\<close> gives \<open>"render-token"\<close>, \<open>"USD Coin (USDC)"\<close> gives
  \<open>"usd-coin-usdc"\<close>, \<open>"The Graph"\<close> gives \<open>"the-graph"\<close>.
\<close>

theorem name_to_slug_idempotent:
  "name_to_slug (name_to_slug s) = name_to_slug s \<and>
   name_to_slug ''Render Token'' = ''render-token'' \<and>
   name_to_slug ''USD Coin (USDC)'' = ''usd-coin-usdc'' \<and>
   name_to_slug ''The Graph'' = ''the-graph''"
proof -
  have "name_to_slug (name_to_slug s) = name_to_slug s"
    by (rule slug_fixed [OF name_to_slug_chars name_to_slug_no_hyphen_pair name_to_slug_ends])
  moreover have "name_to_slug ''Render Token'' = ''render-token''"
    by (simp add: name_to_slug_def slug_keep_def text_defs)
  moreover have "name_to_slug ''USD Coin (USDC)'' = ''usd-coin-usdc''"
    by (simp add: name_to_slug_def slug_keep_def text_defs)
  moreover have "name_to_slug ''The Graph'' = ''the-graph''"
    by (simp add: name_to_slug_def slug_keep_def text_defs)
  ultimately show ?thesis by simp
qed

theorem name_to_slug_idempotent_witness:
  "name_to_slug (name_to_slug ''  --The_  Graph-- '') = ''the-graph''"
proof -
  have "name_to_slug ''  --The_  Graph-- '' = ''the-graph''"
    by (simp add: name_to_slug_def slug_keep_def text_defs)
  with name_to_slug_idempotent [of "''  --The_  Graph-- ''"] show ?thesis by simp
qed

subsection \<open>Symbol variations\<close>









subsection \<open>Catalog client\<close>

text \<open>
  C9. The request step of every client operation fails with the API error that carries
  the transport status code, the error message and the application error code exactly
  when the application error code of the envelope is not zero or the transport status
  is outside the success range; each condition alone makes it fail, and when neither
  holds the parsed response is returned.
\<close>

theorem check_response_fails_iff:
  "((\<exists>e. check_response r = Inl e) \<longleftrightarrow> (read_error_code r \<noteq> Some 0 \<or> \<not> is_success r)) \<and>
   (read_error_code r \<noteq> Some 0 \<longrightarrow>
      check_response r =
        Inl (CoinMarketCapAPIError (status_code r) (read_error_message r) (read_error_code r))) \<and>
   (\<not> is_success r \<longrightarrow>
      check_response r =
        Inl (CoinMarketCapAPIError (status_code r) (read_error_message r) (read_error_code r))) \<and>
   (read_error_code r = Some 0 \<and> is_success r \<longrightarrow> check_response r = Inr r) \<and>
   (map_reply rm before p = Inr r \<longrightarrow> fst (request_map rm p before) = check_response r) \<and>
   (info_reply rm before q = Inr r' \<longrightarrow> fst (request_info rm q before) = check_response r')"
  by (simp add: check_response_def request_map_def request_info_def Let_def)

theorem check_response_fails_iff_witness:
  "read_error_code rejected \<noteq> Some 0 \<and> is_success rejected \<and>
   check_response rejected =
     Inl (CoinMarketCapAPIError 200 (Some ''This API Key is invalid.'') (Some 1001)) \<and>
   \<not> is_success ((ok [bitcoin]) \<lparr>status_code := 500\<rparr>) \<and>
   read_error_code ((ok [bitcoin]) \<lparr>status_code := 500\<rparr>) = Some 0 \<and>
   check_response ((ok [bitcoin]) \<lparr>status_code := 500\<rparr>) =
     Inl (CoinMarketCapAPIError 500 None (Some 0)) \<and>
   map_reply sample_remote [] btc_params = Inr (ok [bitcoin, ethereum]) \<and>
   fst (request_map sample_remote btc_params []) = Inr (ok [bitcoin, ethereum])"
proof -
  have 1: "read_error_code rejected \<noteq> Some 0" "is_success rejected"
    "status_code rejected = 200" "read_error_message rejected = Some ''This API Key is invalid.''"
    "read_error_code rejected = Some 1001"
    by (simp_all add: rejected_def read_error_code_def read_error_message_def is_success_def)
  have 2: "\<not> is_success ((ok [bitcoin]) \<lparr>status_code := 500\<rparr>)"
    "read_error_code ((ok [bitcoin]) \<lparr>status_code := 500\<rparr>) = Some 0"
    "read_error_message ((ok [bitcoin]) \<lparr>status_code := 500\<rparr>) = None"
    by (simp_all add: ok_def read_error_code_def read_error_message_def is_success_def)
  have 3: "map_reply sample_remote [] btc_params = Inr (ok [bitcoin, ethereum])"
    by (simp add: sample_remote_def)
  have 4: "read_error_code (ok [bitcoin, ethereum]) = Some 0" "is_success (ok [bitcoin, ethereum])"
    by (simp_all add: ok_def read_error_code_def is_success_def)
  show ?thesis
    using 1 2 3 4
      check_response_fails_iff [where r = rejected]
      check_response_fails_iff [where r = "(ok [bitcoin]) \<lparr>status_code := 500\<rparr>"]
      check_response_fails_iff [where r = "ok [bitcoin, ethereum]" and rm = sample_remote
        and before = "[]" and p = btc_params]
    by simp
qed

subsection \<open>The search result\<close>

lemma get_client_sent: "get_client w = (x, w1) \<Longrightarrow> sent w1 = sent w"
  by (auto simp: get_client_def Let_def split: option.splits if_splits)

lemma search_Inr_build:
  assumes "search_cryptocurrency rm name symbol homepage w = (Inr r, w')"
  shows "\<exists>trace sent1. discover rm name symbol homepage (sent w) = (fst (discover rm name symbol homepage (sent w)), trace, sent1) \<and>
     r = build_result name symbol homepage (fst (discover rm name symbol homepage (sent w))) trace"
proof -
  from assms obtain key w1 where gc: "get_client w = (Inr key, w1)"
    by (auto simp: search_cryptocurrency_def split: if_splits prod.splits sum.splits)
  then have s: "sent w1 = sent w" by (rule get_client_sent)
  obtain d t s1 where d: "discover rm name symbol homepage (sent w) = (d, t, s1)"
    by (cases "discover rm name symbol homepage (sent w)") auto
  with assms gc s have "r = build_result name symbol homepage d t"
    by (auto simp: search_cryptocurrency_def split: if_splits)
  with d show ?thesis by auto
qed

lemma build_result_invariant:
  "found (build_result name symbol homepage discovered trace) =
     (match_count (build_result name symbol homepage discovered trace) > 0) \<and>
   ((best_match (build_result name symbol homepage discovered trace) = None) =
     (match_count (build_result name symbol homepage discovered trace) = 0)) \<and>
   (match_count (build_result name symbol homepage discovered trace) > 0 \<longrightarrow>
     (\<exists>c rest. all_matches (build_result name symbol homepage discovered trace) = c # rest \<and>
        best_match (build_result name symbol homepage discovered trace) = Some c))"
  by (cases "sort_key (\<lambda>x. confidence_order (confidence x)) discovered")
     (simp_all add: build_result_def Let_def)

lemma sample_discover:
  "discover sample_remote None (Some ''btc'') (Some ''ethereum.org'') [] =
   (sample_discovered,
    [''exact_symbol(BTC): 2 found'', ''homepage_verification: checked 2 candidates''],
    sent sample_world)"
  by code_simp

lemma sample_search:
  "search_cryptocurrency sample_remote None (Some ''btc'') (Some ''ethereum.org'') keyed_world =
   (Inr sample_result, sample_world)"
proof -
  have "get_client keyed_world = (Inr ''test-api-key'', keyed_world\<lparr>client := Some ''test-api-key''\<rparr>)"
    by (simp add: get_client_def keyed_world_def)
  moreover have "sent (keyed_world\<lparr>client := Some ''test-api-key''\<rparr>) = []"
    by (simp add: keyed_world_def)
  ultimately show ?thesis
    by (simp add: search_cryptocurrency_def sample_discover sample_result_def sample_world_def)
qed

text \<open>
  C1. Every result that \<open>search_cryptocurrency\<close> returns has \<open>found\<close> true exactly
  when \<open>match_count > 0\<close>, and \<open>best_match\<close> null exactly when \<open>match_count = 0\<close>;
  otherwise \<open>best_match\<close> is the first candidate.
\<close>

theorem search_result_invariant:
  assumes "search_cryptocurrency rm name symbol homepage w = (Inr r, w')"
  shows "found r = (match_count r > 0) \<and>
         ((best_match r = None) = (match_count r = 0)) \<and>
         (match_count r > 0 \<longrightarrow>
            (\<exists>c rest. all_matches r = c # rest \<and> best_match r = Some c))"
proof -
  from search_Inr_build [OF assms] obtain trace where
    "r = build_result name symbol homepage (fst (discover rm name symbol homepage (sent w))) trace"
    by blast
  then show ?thesis using build_result_invariant by simp
qed

theorem search_result_invariant_witness:
  "\<exists>r w'. search_cryptocurrency sample_remote None (Some ''btc'') (Some ''ethereum.org'')
             keyed_world = (Inr r, w') \<and>
          found r \<and> match_count r = 2 \<and> best_match r \<noteq> None \<and>
          (\<exists>c rest. all_matches r = c # rest \<and> best_match r = Some c)"
proof -
  have "match_count sample_result = 2"
    by (simp add: sample_result_def build_result_def sample_discovered_def Let_def)
  with search_result_invariant [OF sample_search] sample_search show ?thesis
    by auto
qed

lemma filter_take_prefix: "prefix (filter P (take n xs)) (filter P xs)"
proof -
  have "filter P xs = filter P (take n xs) @ filter P (drop n xs)"
    by (metis append_take_drop_id filter_append)
  then show ?thesis by (simp add: prefix_def)
qed

lemma confidence_order_inj: "confidence_order a = confidence_order b \<longleftrightarrow> a = b"
  by (cases a; cases b) simp_all

lemma sort_by_confidence_stable:
  "filter (\<lambda>c. confidence c = t) (sort_key (\<lambda>x. confidence_order (confidence x)) xs) =
   filter (\<lambda>c. confidence c = t) xs"
  using sort_key_stable [of "\<lambda>x. confidence_order (confidence x)" "confidence_order t" xs]
  by (simp add: confidence_order_inj)

lemma build_result_sorted:
  "sorted (map (\<lambda>x. confidence_order (confidence x))
     (all_matches (build_result name symbol homepage discovered trace)))"
proof -
  have "sorted (map (\<lambda>x. confidence_order (confidence x))
      (sort_key (\<lambda>x. confidence_order (confidence x)) discovered))"
    by (rule sorted_sort_key)
  then have "sorted (take 10 (map (\<lambda>x. confidence_order (confidence x))
      (sort_key (\<lambda>x. confidence_order (confidence x)) discovered)))"
    by (rule sorted_wrt_take)
  then show ?thesis by (simp add: build_result_def Let_def take_map)
qed

text \<open>
  C2. In every result that \<open>search_cryptocurrency\<close> returns, for tiers \<open>t1\<close> ranked above
  \<open>t2\<close>, \<open>all_matches\<close> never has a \<open>t2\<close> candidate before a \<open>t1\<close> candidate, and
  candidates of equal tier keep their discovery order: the candidates of each tier in
  \<open>all_matches\<close> are an initial part of the candidates of that tier as discovered.
\<close>

theorem all_matches_sorted_stable:
  assumes "search_cryptocurrency rm name symbol homepage w = (Inr r, w')"
  shows "(\<forall>i j. i < j \<and> j < length (all_matches r) \<longrightarrow>
            \<not> ranked_above (confidence (all_matches r ! j)) (confidence (all_matches r ! i))) \<and>
         (\<forall>t. prefix (filter (\<lambda>c. confidence c = t) (all_matches r))
                 (filter (\<lambda>c. confidence c = t)
                    (fst (discover rm name symbol homepage (sent w)))))"
proof -
  from search_Inr_build [OF assms] obtain trace where
    r: "r = build_result name symbol homepage (fst (discover rm name symbol homepage (sent w))) trace"
    by blast
  have "sorted (map (\<lambda>x. confidence_order (confidence x)) (all_matches r))"
    unfolding r by (rule build_result_sorted)
  then have 1: "\<forall>i j. i < j \<and> j < length (all_matches r) \<longrightarrow>
      \<not> ranked_above (confidence (all_matches r ! j)) (confidence (all_matches r ! i))"
    by (auto simp: sorted_iff_nth_mono ranked_above_def not_less
        dest!: spec [where x = "_ :: nat"])
  have 2: "\<forall>t. prefix (filter (\<lambda>c. confidence c = t) (all_matches r))
      (filter (\<lambda>c. confidence c = t) (fst (discover rm name symbol homepage (sent w))))"
  proof
    fix t
    have "prefix (filter (\<lambda>c. confidence c = t) (all_matches r))
        (filter (\<lambda>c. confidence c = t)
           (sort_key (\<lambda>x. confidence_order (confidence x))
              (fst (discover rm name symbol homepage (sent w)))))"
      unfolding r by (simp add: build_result_def Let_def filter_take_prefix)
    then show "prefix (filter (\<lambda>c. confidence c = t) (all_matches r))
        (filter (\<lambda>c. confidence c = t) (fst (discover rm name symbol homepage (sent w))))"
      by (simp only: sort_by_confidence_stable)
  qed
  from 1 2 show ?thesis by blast
qed

theorem all_matches_sorted_stable_witness:
  "\<exists>r w'. search_cryptocurrency sample_remote None (Some ''btc'') (Some ''ethereum.org'')
             keyed_world = (Inr r, w') \<and>
          map confidence (fst (discover sample_remote None (Some ''btc'') (Some ''ethereum.org'')
             (sent keyed_world))) = [High, Verified] \<and>
          map confidence (all_matches r) = [Verified, High] \<and>
          \<not> ranked_above (confidence (all_matches r ! 1)) (confidence (all_matches r ! 0)) \<and>
          prefix (filter (\<lambda>c. confidence c = High) (all_matches r))
            (filter (\<lambda>c. confidence c = High)
               (fst (discover sample_remote None (Some ''btc'') (Some ''ethereum.org'')
                  (sent keyed_world))))"
proof -
  have 1: "map confidence (all_matches sample_result) = [Verified, High]"
    by (simp add: sample_result_def build_result_def sample_discovered_def Let_def
        exact_symbol_candidate_def)
  have 2: "sent keyed_world = []"
    by (simp add: keyed_world_def)
  have 3: "map confidence sample_discovered = [High, Verified]"
    by (simp add: sample_discovered_def exact_symbol_candidate_def)
  from all_matches_sorted_stable [OF sample_search] 1 2 3 sample_search sample_discover
  show ?thesis by (auto simp: ranked_above_def)
qed

subsection \<open>Failures\<close>

lemma get_client_configured:
  assumes "configured w"
  shows "\<exists>k w1. get_client w = (Inr k, w1)"
proof (cases "client w")
  case (Some k)
  then show ?thesis by (simp add: get_client_def)
next
  case None
  show ?thesis
  proof (cases "truthy (env_primary w)")
    case True
    then obtain k where "env_primary w = Some k" "k \<noteq> []"
      by (cases "env_primary w") auto
    with None True show ?thesis by (simp add: get_client_def)
  next
    case False
    with assms None have "truthy (env_fallback w)" by (simp add: configured_def)
    then obtain k where "env_fallback w = Some k" "k \<noteq> []"
      by (cases "env_fallback w") auto
    with None False show ?thesis by (simp add: get_client_def)
  qed
qed

lemma try_variations_log:
  "set (log_of st) \<subseteq> set (log_of (try_variations rm original variants st))"
proof (induction rm original variants st rule: try_variations.induct)
  case (1 rm original st)
  show ?case by simp
next
  case (2 rm original variant rest candidates search_log sent0)
  show ?case
  proof (cases "variant = original")
    case True
    with 2 show ?thesis by simp
  next
    case False
    obtain res sent1 where g: "get_cryptocurrency_map rm (Some variant) None ''active'' 1 100
        ''cmc_rank'' sent0 = (res, sent1)"
      by (cases "get_cryptocurrency_map rm (Some variant) None ''active'' 1 100 ''cmc_rank'' sent0")
    show ?thesis
    proof (cases res)
      case (Inl e)
      have "set (log_of (candidates, search_log @ [''symbol_variation('' @ variant @ ''): no match''], sent1))
          \<subseteq> set (log_of (try_variations rm original rest
               (candidates, search_log @ [''symbol_variation('' @ variant @ ''): no match''], sent1)))"
        using 2(2) [OF False g [symmetric] Inl] .
      with False g Inl show ?thesis
        by (auto simp: log_of_def)
    next
      case (Inr result)
      show ?thesis
      proof (cases "data_of result = []")
        case True
        have "set (log_of (candidates, search_log, sent1))
            \<subseteq> set (log_of (try_variations rm original rest (candidates, search_log, sent1)))"
          using 2(3) [OF False g [symmetric] Inr] True by simp
        with True False g Inr show ?thesis
          by (auto simp: log_of_def)
      next
        case nonempty: False
        with False g Inr show ?thesis by (auto simp: log_of_def)
      qed
    qed
  qed
qed

lemma symbol_variation_log: "set (log_of st) \<subseteq> set (log_of (symbol_variation rm symbol st))"
  using try_variations_log
  by (cases st) (auto simp: symbol_variation_def split: option.splits)

lemma slug_match_log: "set (log_of st) \<subseteq> set (log_of (slug_match rm name st))"
  by (cases st) (auto simp: slug_match_def log_of_def Let_def split: option.splits prod.splits sum.splits)

lemma fuzzy_name_log: "set (log_of st) \<subseteq> set (log_of (fuzzy_name rm name st))"
  by (cases st) (auto simp: fuzzy_name_def log_of_def split: option.splits prod.splits)

lemma homepage_verification_log:
  "set (log_of st) \<subseteq> set (log_of (homepage_verification rm homepage st))"
  by (cases st) (auto simp: homepage_verification_def log_of_def split: option.splits prod.splits)

lemma discover_log:
  "set (log_of (exact_symbol rm symbol ([], [], sent0))) \<subseteq>
   set (log_of (discover rm name symbol homepage sent0))"
  unfolding discover_def
  using symbol_variation_log slug_match_log fuzzy_name_log homepage_verification_log
  by (meson subset_trans)

lemma exact_symbol_failure_logged:
  assumes "s \<noteq> []"
    and "get_cryptocurrency_map rm (Some (strip (upper s))) None ''active'' 1 100 ''cmc_rank''
           sent0 = (Inl e, st)"
  shows "''exact_symbol('' @ strip (upper s) @ ''): failed - '' @ str_error e
          \<in> set (log_of (exact_symbol rm (Some s) ([], [], sent0)))"
  using assms by (simp add: exact_symbol_def log_of_def Let_def)

lemma search_configured:
  assumes "configured w" and "truthy name \<or> truthy symbol"
  shows "\<exists>w'. search_cryptocurrency rm name symbol homepage w =
           (Inr (build_result name symbol homepage
                   (fst (discover rm name symbol homepage (sent w)))
                   (log_of (discover rm name symbol homepage (sent w)))), w')"
proof -
  from get_client_configured [OF assms(1)] obtain k w1 where g: "get_client w = (Inr k, w1)"
    by blast
  then have "sent w1 = sent w" by (rule get_client_sent)
  with g assms(2) show ?thesis
    by (auto simp: search_cryptocurrency_def log_of_def split: prod.splits)
qed

lemma keyed_world_configured: "configured keyed_world"
  by (simp add: configured_def keyed_world_def)

lemma failing_lookup:
  "get_cryptocurrency_map failing_remote (Some (strip (upper ''btc''))) None ''active'' 1 100
     ''cmc_rank'' (sent keyed_world) = (Inl (TransportError ''connection refused''), [lookup ''BTC''])"
  by code_simp

lemma failing_search:
  "search_cryptocurrency failing_remote (Some ''Bitcoin'') (Some ''btc'') (Some ''bitcoin.org'')
     keyed_world =
   (Inr (build_result (Some ''Bitcoin'') (Some ''btc'') (Some ''bitcoin.org'') []
           [''exact_symbol(BTC): failed - connection refused'',
            ''symbol_variation(BTCTOKEN): no match'',
            ''symbol_variation(BTCCOIN): no match'',
            ''slug(bitcoin): no match - connection refused'',
            ''fuzzy_name(Bitcoin): no match'']),
    keyed_world\<lparr>client := Some ''test-api-key'',
      sent := [lookup ''BTC'', lookup ''BTCTOKEN'', lookup ''BTCCOIN'',
               Info_request \<lparr>q_id = None, q_symbol = None, q_slug = Some ''bitcoin'',
                              q_address = None\<rparr>,
               Map_request \<lparr>p_listing_status = ''active'', p_start = 1, p_limit = 5000,
                             p_sort = ''cmc_rank'', p_symbol = None, p_slug = None\<rparr>]\<rparr>)"
  by code_simp

text \<open>
  C3, as stated: \<open>search_cryptocurrency\<close> raises the invalid-argument error if and only
  if both name and symbol are absent, and returns a result for every input with a name
  or a symbol present. It fails for a name that is present and empty: the call below
  raises.
\<close>

theorem empty_name_is_rejected:
  "(Some [] :: string option) \<noteq> None \<and>
   search_cryptocurrency sample_remote (Some []) None None keyed_world =
     (Inl (ValueError ''At least one of name or symbol is required''), keyed_world)"
  by (simp add: search_cryptocurrency_def)

lemma variation_failure_logged:
  "v \<noteq> original \<Longrightarrow>
   get_cryptocurrency_map rm (Some v) None ''active'' 1 100 ''cmc_rank'' s0 = (Inl e, s1) \<Longrightarrow>
   try_variations rm original (v # vs) (cs, l, s0) =
     try_variations rm original vs (cs, l @ [''symbol_variation('' @ v @ ''): no match''], s1)"
  by simp

lemma slug_failure_logged:
  "nm \<noteq> [] \<Longrightarrow>
   get_cryptocurrency_info rm None None (Some (name_to_slug nm)) None s0 = (Inl e, s1) \<Longrightarrow>
   slug_match rm (Some nm) ([], l, s0) =
     ([], l @ [''slug('' @ name_to_slug nm @ ''): no match - '' @ str_error e], s1)"
  by (simp add: slug_match_def Let_def)

lemma fuzzy_failure_logged:
  "nm \<noteq> [] \<Longrightarrow>
   get_cryptocurrency_map rm None None ''active'' 1 5000 ''cmc_rank'' s0 = (Inl e, s1) \<Longrightarrow>
   fuzzy_name rm (Some nm) ([], l, s0) = ([], l @ [''fuzzy_name('' @ nm @ ''): no match''], s1)"
  by (simp add: fuzzy_name_def fuzzy_search_by_name_def Let_def)

lemma homepage_failure_logged:
  "hp \<noteq> [] \<Longrightarrow>
   get_cryptocurrency_info rm
     (Some (join '','' (map (\<lambda>c. str_int (c_id c)) (take 10 (c # cs))))) None None None s0 =
     (Inl e, s1) \<Longrightarrow>
   homepage_verification rm (Some hp) (c # cs, l, s0) =
     (c # cs,
      l @ [''homepage_verification: checked '' @ str_nat (length (c # cs)) @ '' candidates''], s1)"
  by (simp add: homepage_verification_def verify_candidates_by_homepage_def Let_def)

lemma get_client_error:
  "get_client w = (Inl e, w1) \<Longrightarrow>
   e = ValueError (''COINMARKETCAP_API_KEY or CMC_API_KEY environment variable is required. '' @
                   ''Get your free API key at https://coinmarketcap.com/api/'')"
  by (auto simp: get_client_def Let_def split: option.splits if_splits)

lemma search_truthy_not_invalid:
  assumes "truthy name \<or> truthy symbol"
  shows "search_cryptocurrency rm name symbol homepage w \<noteq>
           (Inl (ValueError ''At least one of name or symbol is required''), w')"
proof (cases "get_client w")
  case (Pair res w1)
  show ?thesis
  proof (cases res)
    case (Inl e)
    with Pair get_client_error have "e \<noteq> ValueError ''At least one of name or symbol is required''"
      by fastforce
    with assms Pair Inl show ?thesis by (simp add: search_cryptocurrency_def)
  next
    case (Inr k)
    with assms Pair show ?thesis
      by (simp add: search_cryptocurrency_def split: prod.splits)
  qed
qed

text \<open>
  C3, amended. \<open>search_cryptocurrency\<close> raises the invalid-argument error if and only
  if each of name and symbol is absent or the empty string, and then no request has been
  sent (the process is unchanged). For every other input and a configured client,
  whatever the remote does, the call returns a result. A failed
  exact-symbol lookup is a line of the result's \<open>search_log\<close>; the other strategies
  add their line for a failed request and go on (the variant loop with the next
  variant, verification with the candidates unchanged), and no later strategy removes
  a line.
\<close>

theorem search_raises_iff_untruthy:
  "((\<exists>w'. search_cryptocurrency rm name symbol homepage w =
            (Inl (ValueError ''At least one of name or symbol is required''), w')) \<longleftrightarrow>
            \<not> truthy name \<and> \<not> truthy symbol) \<and>
         (\<not> truthy name \<and> \<not> truthy symbol \<longrightarrow>
            search_cryptocurrency rm name symbol homepage w =
              (Inl (ValueError ''At least one of name or symbol is required''), w)) \<and>
         (configured w \<and> (truthy name \<or> truthy symbol) \<longrightarrow>
            (\<exists>r w'. search_cryptocurrency rm name symbol homepage w = (Inr r, w'))) \<and>
         (\<forall>s e st. configured w \<and> symbol = Some s \<and> s \<noteq> [] \<and>
            get_cryptocurrency_map rm (Some (strip (upper s))) None ''active'' 1 100 ''cmc_rank''
              (sent w) = (Inl e, st) \<longrightarrow>
            (\<exists>r w'. search_cryptocurrency rm name symbol homepage w = (Inr r, w') \<and>
               ''exact_symbol('' @ strip (upper s) @ ''): failed - '' @ str_error e
                 \<in> set (search_log r))) \<and>
         (\<forall>v original vs cs l s0 e s1.
            v \<noteq> original \<and>
            get_cryptocurrency_map rm (Some v) None ''active'' 1 100 ''cmc_rank'' s0 = (Inl e, s1) \<longrightarrow>
              try_variations rm original (v # vs) (cs, l, s0) =
                try_variations rm original vs
                  (cs, l @ [''symbol_variation('' @ v @ ''): no match''], s1)) \<and>
         (\<forall>nm l s0 e s1.
            nm \<noteq> [] \<and>
            get_cryptocurrency_info rm None None (Some (name_to_slug nm)) None s0 = (Inl e, s1) \<longrightarrow>
              slug_match rm (Some nm) ([], l, s0) =
                ([], l @ [''slug('' @ name_to_slug nm @ ''): no match - '' @ str_error e], s1)) \<and>
         (\<forall>nm l s0 e s1.
            nm \<noteq> [] \<and>
            get_cryptocurrency_map rm None None ''active'' 1 5000 ''cmc_rank'' s0 = (Inl e, s1) \<longrightarrow>
              fuzzy_name rm (Some nm) ([], l, s0) =
                ([], l @ [''fuzzy_name('' @ nm @ ''): no match''], s1)) \<and>
         (\<forall>hp c cs l s0 e s1.
            hp \<noteq> [] \<and>
            get_cryptocurrency_info rm
              (Some (join '','' (map (\<lambda>c. str_int (c_id c)) (take 10 (c # cs))))) None None None
              s0 = (Inl e, s1) \<longrightarrow>
              homepage_verification rm (Some hp) (c # cs, l, s0) =
                (c # cs,
                 l @ [''homepage_verification: checked '' @ str_nat (length (c # cs)) @
                      '' candidates''],
                 s1)) \<and>
         (\<forall>st. set (log_of st) \<subseteq> set (log_of (symbol_variation rm symbol st)) \<and>
               set (log_of st) \<subseteq> set (log_of (slug_match rm name st)) \<and>
               set (log_of st) \<subseteq> set (log_of (fuzzy_name rm name st)) \<and>
               set (log_of st) \<subseteq> set (log_of (homepage_verification rm homepage st)))"
proof -
  have a: "\<not> truthy name \<and> \<not> truthy symbol \<longrightarrow>
      search_cryptocurrency rm name symbol homepage w =
        (Inl (ValueError ''At least one of name or symbol is required''), w)"
    by (simp add: search_cryptocurrency_def)
  have b: "configured w \<and> (truthy name \<or> truthy symbol) \<longrightarrow>
      (\<exists>r w'. search_cryptocurrency rm name symbol homepage w = (Inr r, w'))"
    using search_configured by blast
  have c: "(\<exists>w'. search_cryptocurrency rm name symbol homepage w =
        (Inl (ValueError ''At least one of name or symbol is required''), w')) \<longleftrightarrow>
      \<not> truthy name \<and> \<not> truthy symbol"
    using a search_truthy_not_invalid [of name symbol rm homepage w] by blast
  have d': "\<exists>r w'. search_cryptocurrency rm name symbol homepage w = (Inr r, w') \<and>
      ''exact_symbol('' @ strip (upper s) @ ''): failed - '' @ str_error e \<in> set (search_log r)"
    if assms: "configured w" and "symbol = Some s" "s \<noteq> []"
      "get_cryptocurrency_map rm (Some (strip (upper s))) None ''active'' 1 100 ''cmc_rank''
         (sent w) = (Inl e, st)" for s e st
  proof -
    from that have "truthy name \<or> truthy symbol" by simp
    from search_configured [OF assms this] obtain w' where
      s: "search_cryptocurrency rm name symbol homepage w =
           (Inr (build_result name symbol homepage
                   (fst (discover rm name symbol homepage (sent w)))
                   (log_of (discover rm name symbol homepage (sent w)))), w')"
      by blast
    have "''exact_symbol('' @ strip (upper s) @ ''): failed - '' @ str_error e
        \<in> set (log_of (discover rm name symbol homepage (sent w)))"
      using exact_symbol_failure_logged [OF that(3,4)] discover_log that(2) by blast
    then have "''exact_symbol('' @ strip (upper s) @ ''): failed - '' @ str_error e
        \<in> set (search_log (build_result name symbol homepage
                   (fst (discover rm name symbol homepage (sent w)))
                   (log_of (discover rm name symbol homepage (sent w)))))"
      by (simp add: build_result_def Let_def)
    with s show ?thesis by blast
  qed
  have d: "\<forall>s e st. configured w \<and> symbol = Some s \<and> s \<noteq> [] \<and>
      get_cryptocurrency_map rm (Some (strip (upper s))) None ''active'' 1 100 ''cmc_rank''
        (sent w) = (Inl e, st) \<longrightarrow>
      (\<exists>r w'. search_cryptocurrency rm name symbol homepage w = (Inr r, w') \<and>
         ''exact_symbol('' @ strip (upper s) @ ''): failed - '' @ str_error e
           \<in> set (search_log r))"
    using d' by blast
  have e1: "\<forall>v original vs cs l s0 e s1.
      v \<noteq> original \<and>
      get_cryptocurrency_map rm (Some v) None ''active'' 1 100 ''cmc_rank'' s0 = (Inl e, s1) \<longrightarrow>
        try_variations rm original (v # vs) (cs, l, s0) =
          try_variations rm original vs
            (cs, l @ [''symbol_variation('' @ v @ ''): no match''], s1)"
    by (intro allI impI, elim conjE) (rule variation_failure_logged)
  have e2: "\<forall>nm l s0 e s1.
      nm \<noteq> [] \<and>
      get_cryptocurrency_info rm None None (Some (name_to_slug nm)) None s0 = (Inl e, s1) \<longrightarrow>
        slug_match rm (Some nm) ([], l, s0) =
          ([], l @ [''slug('' @ name_to_slug nm @ ''): no match - '' @ str_error e], s1)"
    by (intro allI impI, elim conjE) (rule slug_failure_logged)
  have e3: "\<forall>nm l s0 e s1.
      nm \<noteq> [] \<and>
      get_cryptocurrency_map rm None None ''active'' 1 5000 ''cmc_rank'' s0 = (Inl e, s1) \<longrightarrow>
        fuzzy_name rm (Some nm) ([], l, s0) =
          ([], l @ [''fuzzy_name('' @ nm @ ''): no match''], s1)"
    by (intro allI impI, elim conjE) (rule fuzzy_failure_logged)
  have e4: "\<forall>hp c cs l s0 e s1.
      hp \<noteq> [] \<and>
      get_cryptocurrency_info rm
        (Some (join '','' (map (\<lambda>c. str_int (c_id c)) (take 10 (c # cs))))) None None None
        s0 = (Inl e, s1) \<longrightarrow>
        homepage_verification rm (Some hp) (c # cs, l, s0) =
          (c # cs,
           l @ [''homepage_verification: checked '' @ str_nat (length (c # cs)) @
                '' candidates''],
           s1)"
    by (intro allI impI, elim conjE) (rule homepage_failure_logged)
  have e5: "\<forall>st. set (log_of st) \<subseteq> set (log_of (symbol_variation rm symbol st)) \<and>
      set (log_of st) \<subseteq> set (log_of (slug_match rm name st)) \<and>
      set (log_of st) \<subseteq> set (log_of (fuzzy_name rm name st)) \<and>
      set (log_of st) \<subseteq> set (log_of (homepage_verification rm homepage st))"
    by (intro allI conjI symbol_variation_log slug_match_log fuzzy_name_log
        homepage_verification_log)
  from c a b d e1 e2 e3 e4 e5 show ?thesis
    by (intro conjI) assumption+
qed

theorem search_raises_iff_untruthy_witness:
  "configured keyed_world \<and>
   search_cryptocurrency failing_remote None (Some []) (Some ''bitcoin.org'') keyed_world =
     (Inl (ValueError ''At least one of name or symbol is required''), keyed_world) \<and>
   (\<exists>r w'. search_cryptocurrency failing_remote (Some ''Bitcoin'') (Some ''btc'')
              (Some ''bitcoin.org'') keyed_world = (Inr r, w') \<and>
            ''exact_symbol(BTC): failed - connection refused'' \<in> set (search_log r) \<and>
            length (search_log r) = 5 \<and> \<not> found r)"
proof -
  have u: "strip (upper ''btc'') = ''BTC''"
    by (simp add: text_defs)
  from search_raises_iff_untruthy [where rm = failing_remote and name = None
      and symbol = "Some []" and homepage = "Some ''bitcoin.org''" and w = keyed_world]
  have 1: "search_cryptocurrency failing_remote None (Some []) (Some ''bitcoin.org'') keyed_world =
     (Inl (ValueError ''At least one of name or symbol is required''), keyed_world)"
    by simp
  from search_raises_iff_untruthy [where rm = failing_remote and name = "Some ''Bitcoin''"
      and symbol = "Some ''btc''" and homepage = "Some ''bitcoin.org''" and w = keyed_world]
    failing_lookup keyed_world_configured
  have "\<exists>r w'. search_cryptocurrency failing_remote (Some ''Bitcoin'') (Some ''btc'')
              (Some ''bitcoin.org'') keyed_world = (Inr r, w') \<and>
            ''exact_symbol(BTC): failed - connection refused'' \<in> set (search_log r)"
    by (simp add: u)
  then have 2: "\<exists>r w'. search_cryptocurrency failing_remote (Some ''Bitcoin'') (Some ''btc'')
              (Some ''bitcoin.org'') keyed_world = (Inr r, w') \<and>
            ''exact_symbol(BTC): failed - connection refused'' \<in> set (search_log r) \<and>
            length (search_log r) = 5 \<and> \<not> found r"
    by (auto simp: failing_search build_result_def Let_def low_warning_def)
  from keyed_world_configured 1 2 show ?thesis by blast
qed

subsection \<open>Homepage verification\<close>

lemma length_verify_loop: "length (verify_loop d hp cs) = length cs"
  by (induction cs) (auto split: option.splits info_value.splits)

lemma verify_loop_nth:
  assumes "i < length cs"
    and "\<forall>j<i. \<forall>ms. map_of d (str_int (c_id (cs ! j))) \<noteq> Some (Several ms)"
    and "map_of d (str_int (c_id (cs ! i))) = Some (Single meta)"
  shows "verify_loop d hp cs ! i = check_homepage hp meta (cs ! i)"
  using assms
proof (induction cs arbitrary: i)
  case Nil
  then show ?case by simp
next
  case (Cons c cs)
  show ?case
  proof (cases i)
    case 0
    with Cons.prems show ?thesis by simp
  next
    case (Suc k)
    from Cons.prems(2) Suc have head: "\<forall>ms. map_of d (str_int (c_id c)) \<noteq> Some (Several ms)"
      by auto
    from Cons.prems(2) Suc
    have rest: "\<forall>j<k. \<forall>ms. map_of d (str_int (c_id (cs ! j))) \<noteq> Some (Several ms)"
      by auto
    from Cons.prems Suc have "k < length cs" "map_of d (str_int (c_id (cs ! k))) = Some (Single meta)"
      by auto
    from Cons.IH [OF this(1) rest this(2)]
    have "verify_loop d hp cs ! k = check_homepage hp meta (cs ! k)" .
    with head Suc show ?thesis
      by (auto split: option.splits info_value.splits)
  qed
qed

text \<open>
  C4. During homepage verification, a candidate whose fetched metadata has a website URL
  that normalises to the normalised homepage becomes \<open>verified\<close>, loses its warning
  and gets \<open>_homepage_match = exact\<close>, whatever its tier was. The first part is the
  body of the loop, for any candidate; the second part says that the loop applies the
  body to the candidate at every position \<open>i\<close> it reaches: the lookup returned, and no
  candidate before position \<open>i\<close> has a list as its metadata (by-id lookups answer in
  the direct format).
\<close>

theorem exact_homepage_match_verifies:
  "(list_ex (\<lambda>url. normalize_url url = normalize_url homepage) (website meta) \<longrightarrow>
      confidence (check_homepage homepage meta c) = Verified \<and>
      warning (check_homepage homepage meta c) = None \<and>
      homepage_match (check_homepage homepage meta c) = Some Exact) \<and>
   (get_cryptocurrency_info rm
        (Some (join '','' (map (\<lambda>c. str_int (c_id c)) (take 10 candidates)))) None None None before
      = (Inr result, afterwards) \<and>
    i < length candidates \<and>
    (\<forall>j<i. \<forall>ms. map_of (data_of result) (str_int (c_id (candidates ! j))) \<noteq> Some (Several ms)) \<and>
    map_of (data_of result) (str_int (c_id (candidates ! i))) = Some (Single meta) \<longrightarrow>
      fst (verify_candidates_by_homepage rm candidates homepage before) ! i =
        check_homepage homepage meta (candidates ! i))"
proof -
  have body: "list_ex (\<lambda>url. normalize_url url = normalize_url homepage) (website meta) \<Longrightarrow>
      confidence (check_homepage homepage meta c) = Verified \<and>
      warning (check_homepage homepage meta c) = None \<and>
      homepage_match (check_homepage homepage meta c) = Some Exact"
    by (simp add: check_homepage_def Let_def)
  have loop: "fst (verify_candidates_by_homepage rm candidates homepage before) ! i =
        check_homepage homepage meta (candidates ! i)"
    if r: "get_cryptocurrency_info rm
        (Some (join '','' (map (\<lambda>c. str_int (c_id c)) (take 10 candidates)))) None None None before
      = (Inr result, afterwards)"
      and i: "i < length candidates"
      and before: "\<forall>j<i. \<forall>ms. map_of (data_of result) (str_int (c_id (candidates ! j))) \<noteq> Some (Several ms)"
      and m: "map_of (data_of result) (str_int (c_id (candidates ! i))) = Some (Single meta)"
  proof -
    from i have "candidates \<noteq> []" by auto
    then have "map (\<lambda>c. str_int (c_id c)) (take 10 candidates) \<noteq> []" by simp
    with r have "fst (verify_candidates_by_homepage rm candidates homepage before) =
        verify_loop (data_of result) homepage candidates"
      by (simp add: verify_candidates_by_homepage_def Let_def)
    with verify_loop_nth [OF i before m] show ?thesis by simp
  qed
  from body loop show ?thesis by blast
qed

lemma sample_info_lookup:
  "get_cryptocurrency_info sample_remote
      (Some (join '','' (map (\<lambda>c. str_int (c_id c))
         (take 10 [exact_symbol_candidate ''BTC'' bitcoin, ethereum_guess])))) None None None []
    = (Inr (ok [(''1'', Single bitcoin_info), (''1027'', Single ethereum_info)]),
       [Info_request \<lparr>q_id = Some ''1,1027'', q_symbol = None, q_slug = None, q_address = None\<rparr>])"
  by code_simp

theorem exact_homepage_match_verifies_witness:
  "confidence ethereum_guess = Low \<and> warning ethereum_guess \<noteq> None \<and>
   list_ex (\<lambda>url. normalize_url url = normalize_url ''Ethereum.org'') (website ethereum_info) \<and>
   confidence (fst (verify_candidates_by_homepage sample_remote
      [exact_symbol_candidate ''BTC'' bitcoin, ethereum_guess] ''Ethereum.org'' []) ! 1) = Verified \<and>
   warning (fst (verify_candidates_by_homepage sample_remote
      [exact_symbol_candidate ''BTC'' bitcoin, ethereum_guess] ''Ethereum.org'' []) ! 1) = None \<and>
   homepage_match (fst (verify_candidates_by_homepage sample_remote
      [exact_symbol_candidate ''BTC'' bitcoin, ethereum_guess] ''Ethereum.org'' []) ! 1) = Some Exact"
proof -
  have 1: "confidence ethereum_guess = Low \<and> warning ethereum_guess \<noteq> None"
    by (simp add: ethereum_guess_def fuzzy_candidate_def)
  have 2: "list_ex (\<lambda>url. normalize_url url = normalize_url ''Ethereum.org'') (website ethereum_info)"
    by code_simp
  have 3: "map_of (data_of (ok [(''1'', Single bitcoin_info), (''1027'', Single ethereum_info)]))
      (str_int (c_id ([exact_symbol_candidate ''BTC'' bitcoin, ethereum_guess] ! 1))) =
      Some (Single ethereum_info)"
    by code_simp
  have 4: "\<forall>j<1. \<forall>ms. map_of (data_of (ok [(''1'', Single bitcoin_info), (''1027'', Single ethereum_info)]))
      (str_int (c_id ([exact_symbol_candidate ''BTC'' bitcoin, ethereum_guess] ! j))) \<noteq> Some (Several ms)"
  proof -
    have "map_of (data_of (ok [(''1'', Single bitcoin_info), (''1027'', Single ethereum_info)]))
      (str_int (c_id ([exact_symbol_candidate ''BTC'' bitcoin, ethereum_guess] ! 0))) =
      Some (Single bitcoin_info)"
      by code_simp
    then show ?thesis by simp
  qed
  from exact_homepage_match_verifies [where homepage = "''Ethereum.org''" and meta = ethereum_info
      and rm = sample_remote and i = 1 and before = "[]"
      and candidates = "[exact_symbol_candidate ''BTC'' bitcoin, ethereum_guess]"
      and c = ethereum_guess] 1 2 3 4 sample_info_lookup
  show ?thesis by simp
qed

subsection \<open>Fuzzy name match\<close>

lemma contains_empty: "contains s []"
  by (induction s) (simp_all add: startswith_def)

lemma double_threshold: "double (6 / 10) = 5404319552844595 / 9007199254740992"
  by code_simp

lemma round2_one: "round2 1 = 1"
  by code_simp

lemma round2_nine_tenths: "round2 (9 / 10) = 9 / 10"
  by code_simp

lemma empty_query_similarity:
  "similarity_of name_lower [] item =
     (if alnum_clean (lower (entry_name item)) = [] \<or> alnum_clean (lower (entry_slug item)) = []
      then (1, Some Exact_name) else (9 / 10, Some Contains))"
  by (auto simp: similarity_of_def Let_def contains_empty)

lemma threshold_below_scores: "double (6 / 10) \<le> 9 / 10" "double (6 / 10) \<le> 1"
  by code_simp+

lemma empty_query_keep: "keep_match name_lower [] item = [empty_query_match item]"
  using threshold_below_scores
  by (simp add: keep_match_def empty_query_similarity empty_query_match_def
      round2_one round2_nine_tenths)

lemma concat_map_singletons: "(\<And>x. f x = [g x]) \<Longrightarrow> concat (map f xs) = map g xs"
  by (induction xs) simp_all

lemma fm_entry_empty_query_match: "fm_entry (empty_query_match item) = item"
  by (simp add: empty_query_match_def)

lemma no_null_rank_sorts:
  assumes "\<forall>item\<in>set items. entry_rank item \<noteq> Null"
  shows "\<not> sort_raises (map empty_query_match items)"
  using assms by (auto simp: sort_raises_def list_ex_iff fm_entry_empty_query_match)

lemma sorted_take_before_drop:
  assumes "sorted (map f xs)"
  shows "\<forall>a\<in>set (take n xs). \<forall>b\<in>set (drop n xs). f a \<le> f b"
proof -
  from assms have "sorted (map f (take n xs) @ map f (drop n xs))"
    by (metis append_take_drop_id map_append)
  then show ?thesis by (auto simp: sorted_append)
qed

text \<open>
  C10, as stated: for a query whose alphanumeric lower-case form is empty, every fetched
  entry with a non-empty alphanumeric name or slug scores at least 0.9 via the contains
  rule. An entry with a name and no slug is scored by the exact rule, which comes first:
  its empty slug form equals the empty query form.
\<close>

theorem exact_rule_scores_empty_slug:
  "alnum_clean (strip (lower ''?!'')) = [] \<and>
   alnum_clean (lower (entry_name unslugged)) = ''bitcoin'' \<and>
   similarity_of (strip (lower ''?!'')) (alnum_clean (strip (lower ''?!''))) unslugged =
     (1, Some Exact_name)"
  by code_simp

text \<open>A page that mixes a null rank with integer ranks makes the sort raise: the result
  is empty.\<close>

lemma null_rank_empties_result:
  "fst (fuzzy_search_by_name unranked_remote ''?!'' []) = []"
  by code_simp

text \<open>
  C10, amended. For a query whose alphanumeric lower-case form is empty, every fetched
  entry scores 0.9 by the contains rule when the alphanumeric forms of its name and of
  its slug are both non-empty, and 1.0 by the exact rule otherwise. So every fetched
  entry is kept, and when no fetched entry has a null rank the result is the top 5 of
  the whole page: the first five of the page sorted by descending similarity and then
  ascending rank, each of them at or before every entry left out, \<open>min 5 n\<close> entries
  for a page of \<open>n\<close>.
\<close>

theorem empty_query_returns_top_five:
  assumes "alnum_clean (strip (lower name)) = []"
    and "get_cryptocurrency_map rm None None ''active'' 1 5000 ''cmc_rank'' before =
           (Inr result, afterwards)"
    and "\<forall>item\<in>set (data_of result). entry_rank item \<noteq> Null"
  shows "(\<forall>item\<in>set (data_of result).
            similarity_of (strip (lower name)) (alnum_clean (strip (lower name))) item =
              (if alnum_clean (lower (entry_name item)) = [] \<or>
                  alnum_clean (lower (entry_slug item)) = []
               then (1, Some Exact_name) else (9 / 10, Some Contains))) \<and>
         fst (fuzzy_search_by_name rm name before) =
           take 5 (sort_key fuzzy_key (map empty_query_match (data_of result))) \<and>
         length (fst (fuzzy_search_by_name rm name before)) = min 5 (length (data_of result)) \<and>
         (\<forall>m\<in>set (fst (fuzzy_search_by_name rm name before)).
            \<forall>m'\<in>set (drop 5 (sort_key fuzzy_key (map empty_query_match (data_of result)))).
              fuzzy_key m \<le> fuzzy_key m')"
proof -
  have scores: "\<forall>item\<in>set (data_of result).
      similarity_of (strip (lower name)) (alnum_clean (strip (lower name))) item =
        (if alnum_clean (lower (entry_name item)) = [] \<or>
            alnum_clean (lower (entry_slug item)) = []
         then (1, Some Exact_name) else (9 / 10, Some Contains))"
    by (simp add: assms(1) empty_query_similarity)
  have kept: "concat (map (keep_match (strip (lower name)) []) (data_of result)) =
      map empty_query_match (data_of result)"
    by (rule concat_map_singletons) (rule empty_query_keep)
  have res: "fst (fuzzy_search_by_name rm name before) =
      take 5 (sort_key fuzzy_key (map empty_query_match (data_of result)))"
    using assms(1,2) no_null_rank_sorts [OF assms(3)]
    by (simp add: fuzzy_search_by_name_def Let_def kept)
  have len: "length (fst (fuzzy_search_by_name rm name before)) = min 5 (length (data_of result))"
    by (simp add: res min_def)
  have "sorted (map fuzzy_key (sort_key fuzzy_key (map empty_query_match (data_of result))))"
    by (rule sorted_sort_key)
  from sorted_take_before_drop [OF this, of 5]
  have top: "\<forall>m\<in>set (fst (fuzzy_search_by_name rm name before)).
      \<forall>m'\<in>set (drop 5 (sort_key fuzzy_key (map empty_query_match (data_of result)))).
        fuzzy_key m \<le> fuzzy_key m'"
    by (simp only: res)
  from scores res len top show ?thesis by blast
qed


lemma ranked_full_map:
  "get_cryptocurrency_map ranked_remote None None ''active'' 1 5000 ''cmc_rank'' [] =
     (Inr (ok (map coin [1, 2, 3, 4, 5, 6, 7])),
      [Map_request \<lparr>p_listing_status = ''active'', p_start = 1, p_limit = 5000,
                    p_sort = ''cmc_rank'', p_symbol = None, p_slug = None\<rparr>])"
  by code_simp

theorem empty_query_returns_top_five_witness:
  "alnum_clean (strip (lower ''?!'')) = [] \<and>
   length (data_of (ok (map coin [1, 2, 3, 4, 5, 6, 7]))) = 7 \<and>
   map (\<lambda>m. entry_id (fm_entry m)) (fst (fuzzy_search_by_name ranked_remote ''?!'' [])) =
     [7, 6, 5, 4, 3] \<and>
   map fm_similarity (fst (fuzzy_search_by_name ranked_remote ''?!'' [])) =
     [9 / 10, 9 / 10, 9 / 10, 9 / 10, 9 / 10] \<and>
   fst (fuzzy_search_by_name ranked_remote ''?!'' []) =
     take 5 (sort_key fuzzy_key (map empty_query_match (map coin [1, 2, 3, 4, 5, 6, 7])))"
proof -
  have 1: "alnum_clean (strip (lower ''?!'')) = []"
    by code_simp
  have 2: "data_of (ok (map coin [1, 2, 3, 4, 5, 6, 7])) = map coin [1, 2, 3, 4, 5, 6, 7]"
    by (simp only: data_of_def ok_def response.simps option.case)
  have 3: "\<forall>item\<in>set (data_of (ok (map coin [1, 2, 3, 4, 5, 6, 7]))). entry_rank item \<noteq> Null"
    unfolding 2 by (simp add: coin_def)
  have 4: "map (\<lambda>m. entry_id (fm_entry m))
      (take 5 (sort_key fuzzy_key (map empty_query_match (map coin [1, 2, 3, 4, 5, 6, 7])))) =
      [7, 6, 5, 4, 3]"
    by code_simp
  have 5: "map fm_similarity
      (take 5 (sort_key fuzzy_key (map empty_query_match (map coin [1, 2, 3, 4, 5, 6, 7])))) =
      [9 / 10, 9 / 10, 9 / 10, 9 / 10, 9 / 10]"
    by code_simp
  from empty_query_returns_top_five [OF 1 ranked_full_map 3]
  have "fst (fuzzy_search_by_name ranked_remote ''?!'' []) =
      take 5 (sort_key fuzzy_key (map empty_query_match
        (data_of (ok (map coin [1, 2, 3, 4, 5, 6, 7])))))"
    by (elim conjE)
  then have r: "fst (fuzzy_search_by_name ranked_remote ''?!'' []) =
      take 5 (sort_key fuzzy_key (map empty_query_match (map coin [1, 2, 3, 4, 5, 6, 7])))"
    by (simp only: 2)
  have 6: "length (data_of (ok (map coin [1, 2, 3, 4, 5, 6, 7]))) = 7"
    unfolding 2 by simp
  from 1 6 4 5 r show ?thesis
    by (simp only: simp_thms)
qed

text \<open>
  C6, at the input that decides it. The query \<open>"Solana Network"\<close> contains the slug
  \<open>solana\<close> (length 6) of an entry named \<open>SLN\<close>: the entry is not matched by the
  exact or contains rules, the reverse-contains branch is taken, and the length test
  reads the name (length 3): the score is 0 and the entry is dropped. Conversely the
  entry \<open>Alpha Beta\<close> with slug \<open>ab\<close> scores 0.85 for the query \<open>"Crab Cake"\<close>,
  which contains only the two-character slug.
\<close>

theorem reverse_contains_checks_name_length_only:
  "alnum_clean (strip (lower ''Solana Network'')) = ''solananetwork'' \<and>
   alnum_clean (lower (entry_slug sln)) = ''solana'' \<and>
   contains ''solananetwork'' ''solana'' \<and>
   similarity_of (strip (lower ''Solana Network'')) (alnum_clean (strip (lower ''Solana Network'')))
     sln = (0, None) \<and>
   fst (fuzzy_search_by_name solana_remote ''Solana Network'' []) = [] \<and>
   alnum_clean (lower (entry_slug alpha_beta)) = ''ab'' \<and>
   \<not> contains ''crabcake'' (alnum_clean (lower (entry_name alpha_beta))) \<and>
   similarity_of (strip (lower ''Crab Cake'')) (alnum_clean (strip (lower ''Crab Cake'')))
     alpha_beta = (85 / 100, Some Reverse_contains)"
  by code_simp

subsection \<open>The loop over the symbol variants\<close>

text \<open>
  C5, at the input that decides it. The symbol is a space, \<open>A\<close> and the superscript two
  (a digit for \<open>isdigit\<close>, not removed by \<open>rstrip("0123456789")\<close>): rule (d) yields
  the normalised symbol itself as the last variant. The loop compares it with
  \<open>symbol.upper()\<close>, which still has the space, so it is looked up a second time.
  Without the space the variant is skipped.
\<close>

theorem normalized_symbol_looked_up_twice:
  "strip (upper (CHR '' '' # superscript_symbol)) = superscript_symbol \<and>
   upper (CHR '' '' # superscript_symbol) = CHR '' '' # superscript_symbol \<and>
   generate_symbol_variations (CHR '' '' # superscript_symbol) =
     [superscript_symbol @ ''TOKEN'', superscript_symbol @ ''COIN'', superscript_symbol] \<and>
   sent (snd (search_cryptocurrency empty_remote None (Some (CHR '' '' # superscript_symbol)) None
               keyed_world)) =
     [lookup superscript_symbol, lookup (superscript_symbol @ ''TOKEN''),
      lookup (superscript_symbol @ ''COIN''), lookup superscript_symbol] \<and>
   sent (snd (search_cryptocurrency empty_remote None (Some superscript_symbol) None keyed_world)) =
     [lookup superscript_symbol, lookup (superscript_symbol @ ''TOKEN''),
      lookup (superscript_symbol @ ''COIN'')]"
  by code_simp

end
